theory Spec2Isabelle
  imports Main "HOL-Library.Word" "HOL-Library.Signed_Division"
begin

unbundle bit_operations_syntax

section \<open>The LM83 driver (kernel/chips/lm83.c)\<close>

text \<open>
  The driver is embedded function by function. C \<^verbatim>\<open>int\<close> and \<^verbatim>\<open>long\<close> values are
  \<^typ>\<open>int\<close> (the driver only compares and masks them), \<^verbatim>\<open>u8\<close> and \<^verbatim>\<open>unsigned char\<close> are
  \<^typ>\<open>8 word\<close>, and \<^verbatim>\<open>unsigned long\<close> (the tick counter) is \<^typ>\<open>'a word\<close> for any word
  length, so that its subtraction wraps as in C. The build is the default one: \<^verbatim>\<open>DEBUG\<close> is
  not defined.
\<close>

type_synonym u8 = "8 word"

subsection \<open>Registers, conversions and header constants\<close>

definition LM83_REG_R_MAN_ID :: u8 where "LM83_REG_R_MAN_ID = 0xFE"
definition LM83_REG_R_CONFIG :: u8 where "LM83_REG_R_CONFIG = 0x03"
definition LM83_REG_R_STATUS1 :: u8 where "LM83_REG_R_STATUS1 = 0x02"
definition LM83_REG_R_STATUS2 :: u8 where "LM83_REG_R_STATUS2 = 0x35"
definition LM83_REG_R_LOCAL_TEMP :: u8 where "LM83_REG_R_LOCAL_TEMP = 0x00"
definition LM83_REG_W_LOCAL_HIGH :: u8 where "LM83_REG_W_LOCAL_HIGH = 0x0B"
definition LM83_REG_R_REMOTE1_TEMP :: u8 where "LM83_REG_R_REMOTE1_TEMP = 0x30"
definition LM83_REG_W_REMOTE1_HIGH :: u8 where "LM83_REG_W_REMOTE1_HIGH = 0x50"
definition LM83_REG_R_REMOTE2_TEMP :: u8 where "LM83_REG_R_REMOTE2_TEMP = 0x01"
definition LM83_REG_W_REMOTE2_HIGH :: u8 where "LM83_REG_W_REMOTE2_HIGH = 0x0D"
definition LM83_REG_R_REMOTE3_TEMP :: u8 where "LM83_REG_R_REMOTE3_TEMP = 0x31"
definition LM83_REG_W_REMOTE3_HIGH :: u8 where "LM83_REG_W_REMOTE3_HIGH = 0x52"

text \<open>The two conversion macros, on the promoted (\<^verbatim>\<open>int\<close> or \<^verbatim>\<open>long\<close>) argument.\<close>

definition TEMP_FROM_REG :: "int \<Rightarrow> int" where
  "TEMP_FROM_REG val = (if val > 127 then val - 256 else val)"

definition TEMP_TO_REG :: "int \<Rightarrow> int" where
  "TEMP_TO_REG val = (if val < 0 then val + 256 else val)"

definition LM83_INIT_HIGH :: int where "LM83_INIT_HIGH = 127"

text \<open>
  Constants of the kernel headers the driver includes (\<^verbatim>\<open>linux/i2c-proc.h\<close>,
  \<^verbatim>\<open>asm/errno.h\<close>), with the values those headers give them. \<^verbatim>\<open>SENSORS_INSMOD_1(lm83)\<close>
  declares \<^verbatim>\<open>enum chips { any_chip, lm83 }\<close>, hence \<open>lm83 = 1\<close>.
\<close>

definition SENSORS_PROC_REAL_INFO :: int where "SENSORS_PROC_REAL_INFO = 1"
definition SENSORS_PROC_REAL_READ :: int where "SENSORS_PROC_REAL_READ = 2"
definition SENSORS_PROC_REAL_WRITE :: int where "SENSORS_PROC_REAL_WRITE = 3"
definition ENOMEM :: int where "ENOMEM = 12"
definition lm83 :: int where "lm83 = 1"

subsection \<open>Client data\<close>

text \<open>
  \<^verbatim>\<open>struct lm83_data\<close>. Of the semaphore only its count is kept. The type parameter is
  the type of \<^verbatim>\<open>unsigned long\<close>.
\<close>

record 'u lm83_data =
  sysctl_id :: int
  update_lock :: int
  valid :: u8
  last_updated :: 'u
  local_temp :: u8
  local_high :: u8
  remote1_temp :: u8
  remote1_high :: u8
  remote2_temp :: u8
  remote2_high :: u8
  remote3_temp :: u8
  remote3_high :: u8

text \<open>
  \<^verbatim>\<open>struct i2c_client\<close>, the fields the driver assigns. The adapter and driver pointers are
  not kept: there is one adapter, reached through the environment below.
\<close>

record 'u i2c_client =
  addr :: int
  flags :: int
  name :: string
  id_c :: int
  data :: "'u lm83_data"

subsection \<open>The kernel around the driver\<close>

text \<open>
  Every call the driver makes into the kernel is recorded, oldest first.
\<close>

datatype event =
    Check_functionality
  | Kmalloc
  | Kfree
  | Printk string
  | Read_byte_data u8
  | Write_byte_data u8 u8
  | Attach_client
  | Detach_client
  | Register_entry string
  | Deregister_entry int

text \<open>
  What the kernel answers is a parameter: \<open>HZ\<close>, the result of
  \<^verbatim>\<open>i2c_check_functionality\<close>, the block \<^verbatim>\<open>kmalloc\<close> returns (\<open>None\<close> for \<^verbatim>\<open>NULL\<close>; the
  block's content is whatever the memory held), the return values of the two SMBus
  transfers for each register (a byte in \<open>0..255\<close>, or a negative value when the transfer
  fails), and the return values of the bus-layer and sysctl registration calls.
\<close>

record 'u env =
  HZ :: int
  functionality :: bool
  kmalloc :: "'u i2c_client option"
  rd :: "u8 \<Rightarrow> int"
  wr :: "u8 \<Rightarrow> u8 \<Rightarrow> int"
  attach_ret :: int
  register_ret :: int
  detach_ret :: int

text \<open>
  The state the driver acts on: the calls made so far, the client block (\<open>None\<close> before
  allocation and after \<^verbatim>\<open>kfree\<close>), whether the client is in the bus layer's client list,
  the registered sysctl entry, and the driver's global counter \<^verbatim>\<open>lm83_id\<close>.
\<close>

record 'u sys =
  trace :: "event list"
  block :: "'u i2c_client option"
  attached :: bool
  entry :: "int option"
  lm83_id :: int

definition emit :: "event \<Rightarrow> 'u sys \<Rightarrow> 'u sys" where
  "emit e s = s\<lparr>trace := trace s @ [e]\<rparr>"

definition printk :: "string \<Rightarrow> 'u sys \<Rightarrow> 'u sys" where
  "printk msg s = emit (Printk msg) s"

definition kfree :: "'u sys \<Rightarrow> 'u sys" where
  "kfree s = (emit Kfree s)\<lparr>block := None\<rparr>"

text \<open>
  The bus layer and the sysctl layer: each call is recorded, returns what the environment
  says, and takes effect when that value reports success.
\<close>

definition i2c_attach_client :: "'u env \<Rightarrow> 'u sys \<Rightarrow> int \<times> 'u sys" where
  "i2c_attach_client e s =
     (attach_ret e, (emit Attach_client s)\<lparr>attached := (attach_ret e = 0 \<or> attached s)\<rparr>)"

definition i2c_detach_client :: "'u env \<Rightarrow> 'u sys \<Rightarrow> int \<times> 'u sys" where
  "i2c_detach_client e s =
     (detach_ret e, (emit Detach_client s)\<lparr>attached := (detach_ret e \<noteq> 0 \<and> attached s)\<rparr>)"

definition i2c_register_entry :: "'u env \<Rightarrow> string \<Rightarrow> 'u sys \<Rightarrow> int \<times> 'u sys" where
  "i2c_register_entry e type_name s =
     (register_ret e,
      (emit (Register_entry type_name) s)
        \<lparr>entry := (if register_ret e < 0 then entry s else Some (register_ret e))\<rparr>)"

definition i2c_deregister_entry :: "int \<Rightarrow> 'u sys \<Rightarrow> 'u sys" where
  "i2c_deregister_entry n s =
     (emit (Deregister_entry n) s)\<lparr>entry := (if entry s = Some n then None else entry s)\<rparr>"

subsection \<open>Register access\<close>

definition lm83_read_value :: "'u env \<Rightarrow> u8 \<Rightarrow> 'u sys \<Rightarrow> int \<times> 'u sys" where
  "lm83_read_value e reg s = (rd e reg, emit (Read_byte_data reg) s)"

definition lm83_write_value :: "'u env \<Rightarrow> u8 \<Rightarrow> u8 \<Rightarrow> 'u sys \<Rightarrow> int \<times> 'u sys" where
  "lm83_write_value e reg v s = (wr e reg v, emit (Write_byte_data reg v) s)"

subsection \<open>The cached update\<close>

text \<open>
  \<^verbatim>\<open>down\<close> and \<^verbatim>\<open>up\<close> on the semaphore count. A \<^verbatim>\<open>down\<close> on a semaphore that is not free
  sleeps; with no other thread to release it the call never returns, which is \<open>None\<close>.
\<close>

definition down :: "int \<Rightarrow> int option" where
  "down count = (if 0 < count then Some (count - 1) else None)"

definition up :: "int \<Rightarrow> int" where
  "up count = count + 1"

text \<open>
  The condition of \<^verbatim>\<open>lm83_update_client\<close>. \<^verbatim>\<open>HZ + HZ / 2\<close> is computed on \<^verbatim>\<open>int\<close> (C
  division truncates) and converted to \<^verbatim>\<open>unsigned long\<close> for the comparison.
\<close>

definition update_needed :: "'a::len word env \<Rightarrow> 'a word \<Rightarrow> 'a word lm83_data \<Rightarrow> bool" where
  "update_needed e jiffies d \<longleftrightarrow>
     jiffies - last_updated d > word_of_int (HZ e + HZ e sdiv 2)
     \<or> jiffies < last_updated d \<or> valid d = 0"

text \<open>
  \<^verbatim>\<open>lm83_update_client\<close>. The tick counter \<^verbatim>\<open>jiffies\<close> is taken as one value for the whole
  call. Each \<^verbatim>\<open>int\<close> returned by \<^verbatim>\<open>lm83_read_value\<close> is assigned to a \<^verbatim>\<open>u8\<close> field, which
  keeps its low eight bits.
\<close>

definition lm83_update_client ::
  "'a::len word env \<Rightarrow> 'a word \<Rightarrow> 'a word lm83_data \<times> 'a word sys
     \<Rightarrow> ('a word lm83_data \<times> 'a word sys) option" where
  "lm83_update_client e jiffies ds =
     (case ds of (d, s) \<Rightarrow>
        (case down (update_lock d) of
           None \<Rightarrow> None
         | Some c \<Rightarrow>
             let d = d\<lparr>update_lock := c\<rparr>;
                 (d, s) =
                   (if update_needed e jiffies d then
                      let (v, s) = lm83_read_value e LM83_REG_R_LOCAL_TEMP s;
                          d = d\<lparr>local_temp := word_of_int v\<rparr>;
                          (v, s) = lm83_read_value e LM83_REG_R_REMOTE1_TEMP s;
                          d = d\<lparr>remote1_temp := word_of_int v\<rparr>;
                          (v, s) = lm83_read_value e LM83_REG_R_REMOTE2_TEMP s;
                          d = d\<lparr>remote2_temp := word_of_int v\<rparr>;
                          (v, s) = lm83_read_value e LM83_REG_R_REMOTE3_TEMP s;
                          d = d\<lparr>remote3_temp := word_of_int v\<rparr>
                      in (d\<lparr>last_updated := jiffies, valid := 1\<rparr>, s)
                    else (d, s))
             in Some (d\<lparr>update_lock := up (update_lock d)\<rparr>, s)))"

subsection \<open>The four sysctl callbacks\<close>

text \<open>
  Each callback gets the client data, the operation, \<^verbatim>\<open>*nrels_mag\<close> and the \<^verbatim>\<open>results\<close>
  array (a function from index to \<^verbatim>\<open>long\<close>; its bounds are the caller's), and returns
  them as it leaves them. The unused \<^verbatim>\<open>ctl_name\<close> is kept as an argument.
\<close>

type_synonym 'u proc_state = "'u lm83_data \<times> 'u sys \<times> int \<times> (nat \<Rightarrow> int)"

definition lm83_local_temp ::
  "'a::len word env \<Rightarrow> 'a word \<Rightarrow> int \<Rightarrow> int \<Rightarrow> 'a word proc_state
     \<Rightarrow> 'a word proc_state option" where
  "lm83_local_temp e jiffies operation ctl_name st =
     (case st of (d, s, nrels_mag, results) \<Rightarrow>
        if operation = SENSORS_PROC_REAL_INFO then Some (d, s, 0, results)
        else if operation = SENSORS_PROC_REAL_READ then
          (case lm83_update_client e jiffies (d, s) of
             None \<Rightarrow> None
           | Some (d, s) \<Rightarrow>
               Some (d, s, 2,
                 results(0 := TEMP_FROM_REG (uint (local_temp d)),
                         1 := TEMP_FROM_REG (uint (local_high d)))))
        else if operation = SENSORS_PROC_REAL_WRITE then
          (if nrels_mag \<ge> 1 then
             let d = d\<lparr>local_high := word_of_int (TEMP_TO_REG (results 0))\<rparr>;
                 (r, s) = lm83_write_value e LM83_REG_W_LOCAL_HIGH (local_high d) s
             in Some (d, s, nrels_mag, results)
           else Some (d, s, nrels_mag, results))
        else Some (d, s, nrels_mag, results))"

definition lm83_remote1_temp ::
  "'a::len word env \<Rightarrow> 'a word \<Rightarrow> int \<Rightarrow> int \<Rightarrow> 'a word proc_state
     \<Rightarrow> 'a word proc_state option" where
  "lm83_remote1_temp e jiffies operation ctl_name st =
     (case st of (d, s, nrels_mag, results) \<Rightarrow>
        if operation = SENSORS_PROC_REAL_INFO then Some (d, s, 0, results)
        else if operation = SENSORS_PROC_REAL_READ then
          (case lm83_update_client e jiffies (d, s) of
             None \<Rightarrow> None
           | Some (d, s) \<Rightarrow>
               Some (d, s, 2,
                 results(0 := TEMP_FROM_REG (uint (remote1_temp d)),
                         1 := TEMP_FROM_REG (uint (remote1_high d)))))
        else if operation = SENSORS_PROC_REAL_WRITE then
          (if nrels_mag \<ge> 1 then
             let d = d\<lparr>remote1_high := word_of_int (TEMP_TO_REG (results 0))\<rparr>;
                 (r, s) = lm83_write_value e LM83_REG_W_REMOTE1_HIGH (remote1_high d) s
             in Some (d, s, nrels_mag, results)
           else Some (d, s, nrels_mag, results))
        else Some (d, s, nrels_mag, results))"

definition lm83_remote2_temp ::
  "'a::len word env \<Rightarrow> 'a word \<Rightarrow> int \<Rightarrow> int \<Rightarrow> 'a word proc_state
     \<Rightarrow> 'a word proc_state option" where
  "lm83_remote2_temp e jiffies operation ctl_name st =
     (case st of (d, s, nrels_mag, results) \<Rightarrow>
        if operation = SENSORS_PROC_REAL_INFO then Some (d, s, 0, results)
        else if operation = SENSORS_PROC_REAL_READ then
          (case lm83_update_client e jiffies (d, s) of
             None \<Rightarrow> None
           | Some (d, s) \<Rightarrow>
               Some (d, s, 2,
                 results(0 := TEMP_FROM_REG (uint (remote2_temp d)),
                         1 := TEMP_FROM_REG (uint (remote2_high d)))))
        else if operation = SENSORS_PROC_REAL_WRITE then
          (if nrels_mag \<ge> 1 then
             let d = d\<lparr>remote2_high := word_of_int (TEMP_TO_REG (results 0))\<rparr>;
                 (r, s) = lm83_write_value e LM83_REG_W_REMOTE2_HIGH (remote2_high d) s
             in Some (d, s, nrels_mag, results)
           else Some (d, s, nrels_mag, results))
        else Some (d, s, nrels_mag, results))"

definition lm83_remote3_temp ::
  "'a::len word env \<Rightarrow> 'a word \<Rightarrow> int \<Rightarrow> int \<Rightarrow> 'a word proc_state
     \<Rightarrow> 'a word proc_state option" where
  "lm83_remote3_temp e jiffies operation ctl_name st =
     (case st of (d, s, nrels_mag, results) \<Rightarrow>
        if operation = SENSORS_PROC_REAL_INFO then Some (d, s, 0, results)
        else if operation = SENSORS_PROC_REAL_READ then
          (case lm83_update_client e jiffies (d, s) of
             None \<Rightarrow> None
           | Some (d, s) \<Rightarrow>
               Some (d, s, 2,
                 results(0 := TEMP_FROM_REG (uint (remote3_temp d)),
                         1 := TEMP_FROM_REG (uint (remote3_high d)))))
        else if operation = SENSORS_PROC_REAL_WRITE then
          (if nrels_mag \<ge> 1 then
             let d = d\<lparr>remote3_high := word_of_int (TEMP_TO_REG (results 0))\<rparr>;
                 (r, s) = lm83_write_value e LM83_REG_W_REMOTE3_HIGH (remote3_high d) s
             in Some (d, s, nrels_mag, results)
           else Some (d, s, nrels_mag, results))
        else Some (d, s, nrels_mag, results))"

subsection \<open>Detection, attach and detach\<close>

text \<open>
  The detection condition of \<^verbatim>\<open>lm83_detect\<close>: \<open>True\<close> when detection failed. The C
  \<^verbatim>\<open>||\<close> stops at the first mask that is not zero, so the later registers are then not read.
\<close>

definition detection_failed :: "'u env \<Rightarrow> 'u sys \<Rightarrow> bool \<times> 'u sys" where
  "detection_failed e s =
     (let (r1, s) = lm83_read_value e LM83_REG_R_STATUS1 s in
      if r1 AND 0xA8 \<noteq> 0x00 then (True, s)
      else
        let (r2, s) = lm83_read_value e LM83_REG_R_STATUS2 s in
        if r2 AND 0x48 \<noteq> 0x00 then (True, s)
        else
          let (r3, s) = lm83_read_value e LM83_REG_R_CONFIG s in
          (r3 AND 0x41 \<noteq> 0x00, s))"

text \<open>
  The identification step: the value read is assigned to an \<^verbatim>\<open>unsigned char\<close> before it is
  compared with \<open>0x01\<close>.
\<close>

definition identification :: "'u env \<Rightarrow> int \<Rightarrow> 'u sys \<Rightarrow> int \<times> 'u sys" where
  "identification e kind s =
     (let (r, s) = lm83_read_value e LM83_REG_R_MAN_ID s;
          man_id = (word_of_int r :: u8)
      in (if man_id = 0x01 then lm83 else kind, s))"

definition lm83_init_client :: "'u env \<Rightarrow> 'u sys \<Rightarrow> 'u sys" where
  "lm83_init_client e s =
     (let (r, s) = lm83_write_value e LM83_REG_W_LOCAL_HIGH
                     (word_of_int (TEMP_TO_REG LM83_INIT_HIGH)) s;
          (r, s) = lm83_write_value e LM83_REG_W_REMOTE1_HIGH
                     (word_of_int (TEMP_TO_REG LM83_INIT_HIGH)) s;
          (r, s) = lm83_write_value e LM83_REG_W_REMOTE2_HIGH
                     (word_of_int (TEMP_TO_REG LM83_INIT_HIGH)) s;
          (r, s) = lm83_write_value e LM83_REG_W_REMOTE3_HIGH
                     (word_of_int (TEMP_TO_REG LM83_INIT_HIGH)) s
      in s)"

text \<open>Assignments through \<^verbatim>\<open>new_client\<close> and \<^verbatim>\<open>data\<close> act on the allocated block.\<close>

definition upd_client :: "('u i2c_client \<Rightarrow> 'u i2c_client) \<Rightarrow> 'u sys \<Rightarrow> 'u sys" where
  "upd_client f s = s\<lparr>block := map_option f (block s)\<rparr>"

definition upd_data :: "('u lm83_data \<Rightarrow> 'u lm83_data) \<Rightarrow> 'u sys \<Rightarrow> 'u sys" where
  "upd_data f s = upd_client (\<lambda>c. c\<lparr>data := f (data c)\<rparr>) s"

text \<open>The two exit labels of \<^verbatim>\<open>lm83_detect\<close>.\<close>

definition ERROR1 :: "int \<Rightarrow> 'u sys \<Rightarrow> int \<times> 'u sys" where
  "ERROR1 err s = (err, kfree s)"

definition ERROR2 :: "'u env \<Rightarrow> int \<Rightarrow> 'u sys \<Rightarrow> int \<times> 'u sys" where
  "ERROR2 e err s = (let (r, s) = i2c_detach_client e s in ERROR1 err s)"

text \<open>
  \<^verbatim>\<open>lm83_detect\<close>; the result is the value returned and the state left behind. The unused
  \<^verbatim>\<open>flags\<close> argument is kept. \<^verbatim>\<open>err\<close> is still \<open>0\<close> at the first three jumps to
  \<^verbatim>\<open>ERROR1\<close>.
\<close>

definition lm83_detect :: "'u env \<Rightarrow> int \<Rightarrow> int \<Rightarrow> int \<Rightarrow> 'u sys \<Rightarrow> int \<times> 'u sys" where
  "lm83_detect e address flags_arg kind s =
     (let s = emit Check_functionality s in
      if \<not> functionality e then (0, s)
      else
        (case kmalloc e of
           None \<Rightarrow>
             (- ENOMEM,
              printk ''lm83.o: Out of memory in lm83_detect (new_client).'' (emit Kmalloc s))
         | Some raw \<Rightarrow>
             let s = (emit Kmalloc s)\<lparr>block := Some raw\<rparr>;
                 s = upd_client (\<lambda>c. c\<lparr>addr := address, flags := 0\<rparr>) s;
                 (failed, s) = (if kind < 0 then detection_failed e s else (False, s))
             in
               if failed then ERROR1 0 s
               else
                 let (kind, s) = (if kind \<le> 0 then identification e kind s else (kind, s)) in
                 if kind \<le> 0 then ERROR1 0 (printk ''lm83.o: Unsupported chip.'' s)
                 else if kind \<noteq> lm83 then ERROR1 0 (printk ''lm83.o: Unknown kind %d.'' s)
                 else
                   let s = upd_client (\<lambda>c. c\<lparr>name := ''LM83 chip'', id_c := lm83_id s\<rparr>) s;
                       s = s\<lparr>lm83_id := lm83_id s + 1\<rparr>;
                       s = upd_data (\<lambda>d. d\<lparr>valid := 0\<rparr>) s;
                       s = upd_data (\<lambda>d. d\<lparr>update_lock := 1\<rparr>) s;
                       (err, s) = i2c_attach_client e s
                   in
                     if err \<noteq> 0 then ERROR1 err s
                     else
                       let (err, s) = i2c_register_entry e ''lm83'' s in
                       if err < 0 then ERROR2 e err s
                       else
                         let s = upd_data (\<lambda>d. d\<lparr>sysctl_id := err\<rparr>) s;
                             s = lm83_init_client e s
                         in (0, s)))"

text \<open>\<^verbatim>\<open>lm83_detach_client\<close>, on the client the pointer refers to.\<close>

definition lm83_detach_client :: "'u env \<Rightarrow> 'u i2c_client \<Rightarrow> 'u sys \<Rightarrow> int \<times> 'u sys" where
  "lm83_detach_client e client s =
     (let s = i2c_deregister_entry (sysctl_id (data client)) s;
          (err, s) = i2c_detach_client e s
      in
        if err \<noteq> 0 then
          (err, printk ''lm83.o: Client deregistration failed, client not detached.'' s)
        else (0, kfree s))"

subsection \<open>Notions used to state the results\<close>

text \<open>The four transfers of a refresh, in the order \<^verbatim>\<open>lm83_update_client\<close> makes them.\<close>

definition temp_reads :: "event list" where
  "temp_reads = [Read_byte_data LM83_REG_R_LOCAL_TEMP, Read_byte_data LM83_REG_R_REMOTE1_TEMP,
     Read_byte_data LM83_REG_R_REMOTE2_TEMP, Read_byte_data LM83_REG_R_REMOTE3_TEMP]"

definition refreshed :: "'a::len word env \<Rightarrow> 'a word \<Rightarrow> 'a word lm83_data \<Rightarrow> 'a word lm83_data" where
  "refreshed e jiffies d =
     d\<lparr>local_temp := word_of_int (rd e LM83_REG_R_LOCAL_TEMP),
       remote1_temp := word_of_int (rd e LM83_REG_R_REMOTE1_TEMP),
       remote2_temp := word_of_int (rd e LM83_REG_R_REMOTE2_TEMP),
       remote3_temp := word_of_int (rd e LM83_REG_R_REMOTE3_TEMP),
       last_updated := jiffies, valid := 1\<rparr>"

text \<open>
  The staleness predicate in the specification's words: the cache was never filled, or
  more than one and a half poll intervals have passed since the last update, or the clock
  is behind the last update. Time stamps are the unsigned values of the tick counter, the
  poll interval is one second (\<open>HZ\<close> ticks), and \<open>elapsed > 1.5 * interval\<close> is written
  \<open>2 * elapsed > 3 * interval\<close>.
\<close>

definition staleness_predicate :: "int \<Rightarrow> bool \<Rightarrow> int \<Rightarrow> int \<Rightarrow> bool" where
  "staleness_predicate poll_interval cache_valid cache_last_updated now \<longleftrightarrow>
     \<not> cache_valid \<or> 2 * (now - cache_last_updated) > 3 * poll_interval \<or> now < cache_last_updated"

text \<open>
  The path conditions of \<^verbatim>\<open>lm83_detect\<close>: the three masks are clear, the manufacturer
  identifier is the expected one, and both steps (as far as \<open>kind\<close> asks for them) let
  the chip through. \<open>detection_reads\<close> and \<open>probe_reads\<close> are the register reads made on
  the way, \<open>init_writes\<close> the transfers of \<^verbatim>\<open>lm83_init_client\<close>.
\<close>

definition masks_clear :: "'u env \<Rightarrow> bool" where
  "masks_clear e \<longleftrightarrow>
     rd e LM83_REG_R_STATUS1 AND 0xA8 = 0x00
     \<and> rd e LM83_REG_R_STATUS2 AND 0x48 = 0x00
     \<and> rd e LM83_REG_R_CONFIG AND 0x41 = 0x00"

definition detection_reads :: "'u env \<Rightarrow> event list" where
  "detection_reads e =
     (if rd e LM83_REG_R_STATUS1 AND 0xA8 \<noteq> 0x00 then [Read_byte_data LM83_REG_R_STATUS1]
      else if rd e LM83_REG_R_STATUS2 AND 0x48 \<noteq> 0x00
        then [Read_byte_data LM83_REG_R_STATUS1, Read_byte_data LM83_REG_R_STATUS2]
      else [Read_byte_data LM83_REG_R_STATUS1, Read_byte_data LM83_REG_R_STATUS2,
            Read_byte_data LM83_REG_R_CONFIG])"

definition man_id_ok :: "'u env \<Rightarrow> bool" where
  "man_id_ok e \<longleftrightarrow> (word_of_int (rd e LM83_REG_R_MAN_ID) :: u8) = 0x01"

definition probe_reads :: "'u env \<Rightarrow> int \<Rightarrow> event list" where
  "probe_reads e kind =
     (if kind < 0 then detection_reads e else [])
     @ (if kind \<le> 0 then [Read_byte_data LM83_REG_R_MAN_ID] else [])"

definition chip_accepted :: "'u env \<Rightarrow> int \<Rightarrow> bool" where
  "chip_accepted e kind \<longleftrightarrow>
     (kind < 0 \<longrightarrow> masks_clear e) \<and> (if kind \<le> 0 then man_id_ok e else kind = lm83)"

definition init_writes :: "event list" where
  "init_writes =
     [Write_byte_data LM83_REG_W_LOCAL_HIGH 127, Write_byte_data LM83_REG_W_REMOTE1_HIGH 127,
      Write_byte_data LM83_REG_W_REMOTE2_HIGH 127, Write_byte_data LM83_REG_W_REMOTE3_HIGH 127]"

text \<open>
  The four callbacks of \<^verbatim>\<open>lm83_dir_table_template\<close>, each with the threshold field it
  serves and the register it writes that threshold to.
\<close>

definition channels ::
  "(('a::len word env \<Rightarrow> 'a word \<Rightarrow> int \<Rightarrow> int \<Rightarrow> 'a word proc_state
       \<Rightarrow> 'a word proc_state option)
     \<times> ('a word lm83_data \<Rightarrow> u8) \<times> u8) list" where
  "channels =
     [(lm83_local_temp, local_high, LM83_REG_W_LOCAL_HIGH),
      (lm83_remote1_temp, remote1_high, LM83_REG_W_REMOTE1_HIGH),
      (lm83_remote2_temp, remote2_high, LM83_REG_W_REMOTE2_HIGH),
      (lm83_remote3_temp, remote3_high, LM83_REG_W_REMOTE3_HIGH)]"

subsection \<open>Example environments\<close>

text \<open>
  A responding LM83 (\<open>ex_rd\<close>, \<open>ex_wr\<close>), buses on which transfers fail with \<open>-1\<close>, a
  device whose first status register has bit 3 set (\<open>alarm_rd\<close>), a zeroed memory block,
  and a client cache as it is after some refresh.
\<close>

definition ex_rd :: "u8 \<Rightarrow> int" where
  "ex_rd reg =
     (if reg = LM83_REG_R_MAN_ID then 0x01
      else if reg = LM83_REG_R_LOCAL_TEMP then 0x50
      else if reg = LM83_REG_R_REMOTE1_TEMP then 0x9C
      else if reg = LM83_REG_R_REMOTE2_TEMP then 0x19
      else 0x00)"

definition ex_wr :: "u8 \<Rightarrow> u8 \<Rightarrow> int" where
  "ex_wr reg v = 0"

definition remote2_fails_rd :: "u8 \<Rightarrow> int" where
  "remote2_fails_rd reg = (if reg = LM83_REG_R_REMOTE2_TEMP then - 1 else ex_rd reg)"

definition dead_bus_rd :: "u8 \<Rightarrow> int" where
  "dead_bus_rd reg = - 1"

definition man_id_fails_rd :: "u8 \<Rightarrow> int" where
  "man_id_fails_rd reg = (if reg = LM83_REG_R_MAN_ID then - 1 else ex_rd reg)"

definition alarm_rd :: "u8 \<Rightarrow> int" where
  "alarm_rd reg = (if reg = LM83_REG_R_STATUS1 then 0x08 else ex_rd reg)"

definition failing_wr :: "u8 \<Rightarrow> u8 \<Rightarrow> int" where
  "failing_wr reg v = - 1"

definition ex_raw :: "32 word i2c_client" where
  "ex_raw = \<lparr>addr = 0, flags = 0, name = [], id_c = 0,
     data = \<lparr>sysctl_id = 0, update_lock = 0, valid = 0, last_updated = 0,
       local_temp = 0, local_high = 0, remote1_temp = 0, remote1_high = 0,
       remote2_temp = 0, remote2_high = 0, remote3_temp = 0, remote3_high = 0\<rparr>\<rparr>"

definition ex_env :: "32 word env" where
  "ex_env = \<lparr>HZ = 100, functionality = True, kmalloc = Some ex_raw, rd = ex_rd, wr = ex_wr,
     attach_ret = 0, register_ret = 7, detach_ret = 0\<rparr>"

definition ex_sys :: "32 word sys" where
  "ex_sys = \<lparr>trace = [], block = None, attached = False, entry = None, lm83_id = 0\<rparr>"

definition ex_data :: "32 word lm83_data" where
  "ex_data = \<lparr>sysctl_id = 7, update_lock = 1, valid = 1, last_updated = 1000,
     local_temp = 20, local_high = 127, remote1_temp = 21, remote1_high = 127,
     remote2_temp = 22, remote2_high = 127, remote3_temp = 23, remote3_high = 127\<rparr>"

definition ex_results :: "nat \<Rightarrow> int" where
  "ex_results i = (if i = 0 then - 10 else 0)"

text \<open>What a read of the local channel at time \<open>2000\<close> returns on \<open>ex_env\<close> and \<open>ex_data\<close>.\<close>

definition ex_read_state :: "32 word proc_state" where
  "ex_read_state =
     (ex_data\<lparr>local_temp := 80, remote1_temp := 156, remote2_temp := 25, remote3_temp := 0,
        last_updated := 2000\<rparr>,
      ex_sys\<lparr>trace := temp_reads\<rparr>, 2, ex_results(0 := 80, 1 := 127))"

section \<open>Collected definitions\<close>

lemmas LM83_REG_defs =
  LM83_REG_R_MAN_ID_def LM83_REG_R_CONFIG_def LM83_REG_R_STATUS1_def LM83_REG_R_STATUS2_def
  LM83_REG_R_LOCAL_TEMP_def LM83_REG_W_LOCAL_HIGH_def
  LM83_REG_R_REMOTE1_TEMP_def LM83_REG_W_REMOTE1_HIGH_def
  LM83_REG_R_REMOTE2_TEMP_def LM83_REG_W_REMOTE2_HIGH_def
  LM83_REG_R_REMOTE3_TEMP_def LM83_REG_W_REMOTE3_HIGH_def

lemmas SENSORS_PROC_defs =
  SENSORS_PROC_REAL_INFO_def SENSORS_PROC_REAL_READ_def SENSORS_PROC_REAL_WRITE_def

lemmas ex_defs = ex_rd_def ex_wr_def remote2_fails_rd_def dead_bus_rd_def man_id_fails_rd_def
  alarm_rd_def failing_wr_def ex_raw_def ex_env_def ex_sys_def ex_data_def

section \<open>The register encoding\<close>

lemma TEMP_FROM_TO_REG: "- 128 \<le> x \<Longrightarrow> x \<le> 127 \<Longrightarrow> TEMP_FROM_REG (TEMP_TO_REG x) = x"
  by (simp add: TEMP_FROM_REG_def TEMP_TO_REG_def)

lemma TEMP_TO_FROM_REG: "0 \<le> b \<Longrightarrow> b \<le> 255 \<Longrightarrow> TEMP_TO_REG (TEMP_FROM_REG b) = b"
  by (simp add: TEMP_FROM_REG_def TEMP_TO_REG_def)

lemma TEMP_TO_REG_range: "- 128 \<le> x \<Longrightarrow> x \<le> 127 \<Longrightarrow> 0 \<le> TEMP_TO_REG x \<and> TEMP_TO_REG x \<le> 255"
  by (simp add: TEMP_TO_REG_def)

lemma TEMP_FROM_REG_range:
  "0 \<le> b \<Longrightarrow> b \<le> 255 \<Longrightarrow> - 128 \<le> TEMP_FROM_REG b \<and> TEMP_FROM_REG b \<le> 127"
  by (simp add: TEMP_FROM_REG_def)

lemma uint_u8_range: "0 \<le> uint (b :: u8) \<and> uint b \<le> 255"
proof -
  have "uint b < 2 ^ LENGTH(8)" by (rule uint_lt2p)
  then show ?thesis by simp
qed

lemma uint_u8_of_int: "0 \<le> k \<Longrightarrow> k \<le> 255 \<Longrightarrow> uint (word_of_int k :: u8) = k"
  by (simp add: uint_word_of_int)

text \<open>
  What a threshold written as \<open>x\<close> reads back as: the macro result is stored in a \<^verbatim>\<open>u8\<close>
  field and promoted again when it is decoded.
\<close>

lemma TEMP_roundtrip_u8:
  "- 128 \<le> x \<Longrightarrow> x \<le> 127 \<Longrightarrow> TEMP_FROM_REG (uint (word_of_int (TEMP_TO_REG x) :: u8)) = x"
  using TEMP_TO_REG_range [of x] by (simp add: uint_u8_of_int TEMP_FROM_TO_REG)

lemma TEMP_FROM_REG_bij: "bij_betw TEMP_FROM_REG {0..255} {- 128..127}"
proof (rule bij_betw_byWitness [where f' = TEMP_TO_REG])
  show "\<forall>b\<in>{0..255}. TEMP_TO_REG (TEMP_FROM_REG b) = b"
    by (simp add: TEMP_TO_FROM_REG)
  show "\<forall>x\<in>{- 128..127}. TEMP_FROM_REG (TEMP_TO_REG x) = x"
    by (simp add: TEMP_FROM_TO_REG)
  show "TEMP_FROM_REG ` {0..255} \<subseteq> {- 128..127}"
    using TEMP_FROM_REG_range by auto
  show "TEMP_TO_REG ` {- 128..127} \<subseteq> {0..255}"
    using TEMP_TO_REG_range by auto
qed

lemma TEMP_TO_REG_bij: "bij_betw TEMP_TO_REG {- 128..127} {0..255}"
proof (rule bij_betw_byWitness [where f' = TEMP_FROM_REG])
  show "\<forall>x\<in>{- 128..127}. TEMP_FROM_REG (TEMP_TO_REG x) = x"
    by (simp add: TEMP_FROM_TO_REG)
  show "\<forall>b\<in>{0..255}. TEMP_TO_REG (TEMP_FROM_REG b) = b"
    by (simp add: TEMP_TO_FROM_REG)
  show "TEMP_TO_REG ` {- 128..127} \<subseteq> {0..255}"
    using TEMP_TO_REG_range by auto
  show "TEMP_FROM_REG ` {0..255} \<subseteq> {- 128..127}"
    using TEMP_FROM_REG_range by auto
qed

lemma uint_u8_bij: "bij_betw (uint :: u8 \<Rightarrow> int) UNIV {0..255}"
proof (rule bij_betw_byWitness [where f' = word_of_int])
  show "\<forall>b\<in>UNIV. word_of_int (uint (b :: u8)) = b" by simp
  show "\<forall>k\<in>{0..255}. uint (word_of_int k :: u8) = k" by (simp add: uint_u8_of_int)
  show "(uint :: u8 \<Rightarrow> int) ` UNIV \<subseteq> {0..255}" using uint_u8_range by auto
  show "(word_of_int :: int \<Rightarrow> u8) ` {0..255} \<subseteq> UNIV" by simp
qed

text \<open>
  Claim C9. For every \<open>x\<close> in \<open>[-128, 127]\<close>, decoding the encoding of \<open>x\<close> gives \<open>x\<close>
  back; \<open>TEMP_FROM_REG\<close> is a bijection from the byte values \<open>0..255\<close> onto
  \<open>[-128, 127]\<close>, \<open>TEMP_TO_REG\<close> is a bijection the other way and its inverse, and
  decoding a \<^verbatim>\<open>u8\<close> register field is a bijection from the 256 bytes onto \<open>[-128, 127]\<close>.
\<close>

theorem TEMP_codec_bijection:
  "(\<forall>x\<in>{- 128..127}. TEMP_FROM_REG (TEMP_TO_REG x) = x)
   \<and> (\<forall>b\<in>{0..255}. TEMP_TO_REG (TEMP_FROM_REG b) = b)
   \<and> bij_betw TEMP_FROM_REG {0..255} {- 128..127}
   \<and> bij_betw TEMP_TO_REG {- 128..127} {0..255}
   \<and> bij_betw (\<lambda>b :: u8. TEMP_FROM_REG (uint b)) UNIV {- 128..127}
   \<and> card (UNIV :: u8 set) = 256"
proof -
  have "bij_betw (TEMP_FROM_REG \<circ> (uint :: u8 \<Rightarrow> int)) UNIV {- 128..127}"
    using uint_u8_bij TEMP_FROM_REG_bij by (rule bij_betw_trans)
  then have "bij_betw (\<lambda>b :: u8. TEMP_FROM_REG (uint b)) UNIV {- 128..127}"
    by (simp add: comp_def)
  moreover have "card (UNIV :: u8 set) = 256"
    by (simp add: card_word)
  ultimately show ?thesis
    using TEMP_FROM_REG_bij TEMP_TO_REG_bij by (simp add: TEMP_FROM_TO_REG TEMP_TO_FROM_REG)
qed

theorem TEMP_codec_bijection_witness:
  "(- 10 :: int) \<in> {- 128..127} \<and> TEMP_TO_REG (- 10) = 246 \<and> TEMP_FROM_REG (TEMP_TO_REG (- 10)) = - 10
   \<and> (156 :: int) \<in> {0..255} \<and> TEMP_FROM_REG 156 = - 100 \<and> TEMP_TO_REG (TEMP_FROM_REG 156) = 156"
proof -
  have a: "(- 10 :: int) \<in> {- 128..127}" and b: "(156 :: int) \<in> {0..255}" by simp_all
  from TEMP_codec_bijection a have "TEMP_FROM_REG (TEMP_TO_REG (- 10)) = - 10" by blast
  moreover from TEMP_codec_bijection b have "TEMP_TO_REG (TEMP_FROM_REG 156) = 156" by blast
  ultimately show ?thesis by (simp add: TEMP_TO_REG_def TEMP_FROM_REG_def)
qed

section \<open>The cached update\<close>

subsection \<open>What lm83_update_client computes\<close>

lemma update_needed_lock [simp]: "update_needed e j (d\<lparr>update_lock := c\<rparr>) = update_needed e j d"
  by (simp add: update_needed_def)

lemma lm83_update_client_blocked:
  "\<not> 0 < update_lock d \<Longrightarrow> lm83_update_client e j (d, s) = None"
  by (simp add: lm83_update_client_def down_def)

lemma lm83_update_client_fresh:
  "0 < update_lock d \<Longrightarrow> \<not> update_needed e j d \<Longrightarrow> lm83_update_client e j (d, s) = Some (d, s)"
  by (simp add: lm83_update_client_def down_def up_def)

lemma lm83_update_client_stale:
  "0 < update_lock d \<Longrightarrow> update_needed e j d \<Longrightarrow>
   lm83_update_client e j (d, s) = Some (refreshed e j d, s\<lparr>trace := trace s @ temp_reads\<rparr>)"
  by (simp add: lm83_update_client_def down_def up_def lm83_read_value_def emit_def
      refreshed_def temp_reads_def)

lemma lm83_update_client_returns:
  "0 < update_lock d \<Longrightarrow> \<exists>d' s'. lm83_update_client e j (d, s) = Some (d', s')"
  by (cases "update_needed e j d")
    (simp_all add: lm83_update_client_stale lm83_update_client_fresh)

lemma lm83_update_client_frame:
  assumes "lm83_update_client e j (d, s) = Some (d', s')"
  shows "d' = d\<lparr>local_temp := local_temp d', remote1_temp := remote1_temp d',
                  remote2_temp := remote2_temp d', remote3_temp := remote3_temp d',
                  valid := valid d', last_updated := last_updated d'\<rparr>"
    and "s' = s \<or> s' = s\<lparr>trace := trace s @ temp_reads\<rparr>"
proof -
  have lock: "0 < update_lock d"
    using assms by (cases "0 < update_lock d") (simp_all add: lm83_update_client_blocked)
  then have "(d', s') = (d, s) \<or> (d', s') = (refreshed e j d, s\<lparr>trace := trace s @ temp_reads\<rparr>)"
    using assms by (cases "update_needed e j d")
      (simp_all add: lm83_update_client_stale lm83_update_client_fresh)
  then show "d' = d\<lparr>local_temp := local_temp d', remote1_temp := remote1_temp d',
                  remote2_temp := remote2_temp d', remote3_temp := remote3_temp d',
                  valid := valid d', last_updated := last_updated d'\<rparr>"
    and "s' = s \<or> s' = s\<lparr>trace := trace s @ temp_reads\<rparr>"
    by (auto simp: refreshed_def)
qed

lemma lm83_update_client_highs:
  assumes "lm83_update_client e j (d, s) = Some (d', s')"
  shows "local_high d' = local_high d \<and> remote1_high d' = remote1_high d
         \<and> remote2_high d' = remote2_high d \<and> remote3_high d' = remote3_high d
         \<and> update_lock d' = update_lock d"
proof -
  have lock: "0 < update_lock d"
    using assms by (cases "0 < update_lock d") (simp_all add: lm83_update_client_blocked)
  then have "d' = d \<or> d' = refreshed e j d"
    using assms by (cases "update_needed e j d")
      (simp_all add: lm83_update_client_stale lm83_update_client_fresh)
  then show ?thesis by (auto simp: refreshed_def)
qed

text \<open>The condition of the code and the predicate of the specification agree.\<close>

lemma update_needed_spec:
  fixes e :: "'a::len word env"
  assumes "0 \<le> HZ e" "HZ e + HZ e div 2 < 2 ^ LENGTH('a)"
  shows "update_needed e now d \<longleftrightarrow>
         staleness_predicate (HZ e) (valid d \<noteq> 0) (uint (last_updated d)) (uint now)"
proof -
  let ?h = "HZ e + HZ e div 2"
  have sd: "HZ e sdiv 2 = HZ e div 2"
    using assms(1) by (cases "HZ e = 0") (simp_all add: signed_divide_int_def)
  have h: "uint (word_of_int ?h :: 'a word) = ?h"
  proof -
    have "0 \<le> ?h" using assms(1) by simp
    then have "take_bit LENGTH('a) ?h = ?h"
      using assms(2) by (rule take_bit_int_eq_self)
    then show ?thesis by (simp only: uint_word_of_int_eq)
  qed
  show ?thesis
  proof (cases "now < last_updated d")
    case True
    then have "uint now < uint (last_updated d)" by (simp add: word_less_def)
    with True show ?thesis by (simp add: update_needed_def staleness_predicate_def)
  next
    case False
    then have le: "last_updated d \<le> now" by simp
    then have sub: "uint (now - last_updated d) = uint now - uint (last_updated d)"
      by (simp add: uint_minus_simple_alt)
    have nl: "\<not> uint now < uint (last_updated d)"
      using False by (simp add: word_less_def)
    have "word_of_int ?h < now - last_updated d \<longleftrightarrow> ?h < uint now - uint (last_updated d)"
      by (simp only: word_less_def h sub)
    also have "\<dots> \<longleftrightarrow> 3 * HZ e < 2 * (uint now - uint (last_updated d))"
      by presburger
    finally show ?thesis
      using False nl by (simp only: update_needed_def staleness_predicate_def sd) auto
  qed
qed

subsection \<open>The callbacks\<close>

lemma lm83_local_temp_READ:
  "lm83_local_temp e j SENSORS_PROC_REAL_READ ctl (d, s, n, res) =
     (case lm83_update_client e j (d, s) of
        None \<Rightarrow> None
      | Some (d', s') \<Rightarrow>
          Some (d', s', 2, res(0 := TEMP_FROM_REG (uint (local_temp d')),
                               1 := TEMP_FROM_REG (uint (local_high d')))))"
  by (simp add: lm83_local_temp_def SENSORS_PROC_defs)

lemma lm83_local_temp_WRITE:
  "1 \<le> n \<Longrightarrow>
   lm83_local_temp e j SENSORS_PROC_REAL_WRITE ctl (d, s, n, res) =
     Some (d\<lparr>local_high := word_of_int (TEMP_TO_REG (res 0))\<rparr>,
           s\<lparr>trace := trace s @ [Write_byte_data LM83_REG_W_LOCAL_HIGH (word_of_int (TEMP_TO_REG (res 0)))]\<rparr>,
           n, res)"
  by (simp add: lm83_local_temp_def SENSORS_PROC_defs lm83_write_value_def emit_def)

lemma lm83_local_temp_READ_again:
  assumes "0 < update_lock d"
    and "lm83_local_temp e j SENSORS_PROC_REAL_READ ctl (d, s, n, res) = Some st"
    and "\<not> update_needed e2 j2 (fst st)"
  shows "lm83_local_temp e2 j2 SENSORS_PROC_REAL_READ ctl2 st = Some st"
proof -
  obtain d' s' where u: "lm83_update_client e j (d, s) = Some (d', s')"
    and st: "st = (d', s', 2, res(0 := TEMP_FROM_REG (uint (local_temp d')),
                                   1 := TEMP_FROM_REG (uint (local_high d'))))"
    using assms(2) by (auto simp: lm83_local_temp_READ split: option.splits)
  have "update_lock d' = update_lock d"
    using u assms(1) by (cases "update_needed e j d")
      (auto simp: lm83_update_client_stale lm83_update_client_fresh refreshed_def)
  then have "lm83_update_client e2 j2 (d', s') = Some (d', s')"
    using assms(1,3) st by (simp add: lm83_update_client_fresh)
  then show ?thesis
    by (simp add: st lm83_local_temp_READ)
qed

lemma lm83_local_temp_keeps_highs:
  assumes "operation \<noteq> SENSORS_PROC_REAL_WRITE"
    and "lm83_local_temp e j operation ctl (d, s, n, res) = Some (d1, s1, n1, res1)"
  shows "local_high d1 = local_high d \<and> remote1_high d1 = remote1_high d
         \<and> remote2_high d1 = remote2_high d \<and> remote3_high d1 = remote3_high d"
proof (cases "operation = SENSORS_PROC_REAL_READ")
  case True
  with assms(2) obtain s' where "lm83_update_client e j (d, s) = Some (d1, s')"
    by (auto simp: lm83_local_temp_READ split: option.splits)
  then show ?thesis using lm83_update_client_highs by blast
next
  case False
  with assms have "d1 = d"
    by (auto simp: lm83_local_temp_def split: if_splits)
  then show ?thesis by simp
qed

lemma lm83_local_temp_threshold_read:
  assumes "0 < update_lock d" and "- 128 \<le> v" and "v \<le> 127"
    and "local_high d = word_of_int (TEMP_TO_REG v)"
  shows "\<exists>d2 s2 res'. lm83_local_temp e j SENSORS_PROC_REAL_READ ctl (d, s, n, res)
             = Some (d2, s2, 2, res') \<and> res' 1 = v"
proof -
  obtain d2 s2 where u: "lm83_update_client e j (d, s) = Some (d2, s2)"
    using assms(1) lm83_update_client_returns by blast
  then have "local_high d2 = word_of_int (TEMP_TO_REG v)"
    using lm83_update_client_highs [OF u] assms(4) by simp
  then have "TEMP_FROM_REG (uint (local_high d2)) = v"
    using assms(2,3) by (simp add: TEMP_roundtrip_u8)
  then show ?thesis
    by (simp add: lm83_local_temp_READ u)
qed

lemma lm83_local_temp_threshold_write:
  assumes "- 128 \<le> v" and "v \<le> 127" and "1 \<le> n" and "res 0 = v" and "0 < update_lock d"
  shows "\<exists>d1 s1. lm83_local_temp e j SENSORS_PROC_REAL_WRITE ctl (d, s, n, res)
             = Some (d1, s1, n, res)
     \<and> local_high d1 = word_of_int (TEMP_TO_REG v)
     \<and> trace s1 = trace s @ [Write_byte_data LM83_REG_W_LOCAL_HIGH (word_of_int (TEMP_TO_REG v))]
     \<and> (\<forall>w. lm83_local_temp (e\<lparr>wr := w\<rparr>) j SENSORS_PROC_REAL_WRITE ctl (d, s, n, res)
             = Some (d1, s1, n, res))
     \<and> (\<forall>e2 j2 ctl2 n2 res2. \<exists>d2 s2 res'.
           lm83_local_temp e2 j2 SENSORS_PROC_REAL_READ ctl2 (d1, s1, n2, res2)
             = Some (d2, s2, 2, res') \<and> res' 1 = v)"
proof -
  let ?d1 = "d\<lparr>local_high := word_of_int (TEMP_TO_REG v)\<rparr>"
  let ?s1 = "s\<lparr>trace := trace s @ [Write_byte_data LM83_REG_W_LOCAL_HIGH (word_of_int (TEMP_TO_REG v))]\<rparr>"
  have w: "\<And>e :: 'a word env. lm83_local_temp e j SENSORS_PROC_REAL_WRITE ctl (d, s, n, res)
             = Some (?d1, ?s1, n, res)"
    using assms(3,4) by (simp add: lm83_local_temp_WRITE)
  have "0 < update_lock ?d1" and "local_high ?d1 = word_of_int (TEMP_TO_REG v)"
    using assms(5) by simp_all
  then have r: "\<forall>e2 j2 ctl2 n2 res2. \<exists>d2 s2 res'.
           lm83_local_temp e2 j2 SENSORS_PROC_REAL_READ ctl2 (?d1, ?s1, n2, res2)
             = Some (d2, s2, 2, res') \<and> res' 1 = v"
    using assms(1,2) lm83_local_temp_threshold_read by blast
  show ?thesis
    using w r by (intro exI [of _ ?d1] exI [of _ ?s1]) simp
qed

lemma lm83_remote1_temp_READ:
  "lm83_remote1_temp e j SENSORS_PROC_REAL_READ ctl (d, s, n, res) =
     (case lm83_update_client e j (d, s) of
        None \<Rightarrow> None
      | Some (d', s') \<Rightarrow>
          Some (d', s', 2, res(0 := TEMP_FROM_REG (uint (remote1_temp d')),
                               1 := TEMP_FROM_REG (uint (remote1_high d')))))"
  by (simp add: lm83_remote1_temp_def SENSORS_PROC_defs)

lemma lm83_remote1_temp_WRITE:
  "1 \<le> n \<Longrightarrow>
   lm83_remote1_temp e j SENSORS_PROC_REAL_WRITE ctl (d, s, n, res) =
     Some (d\<lparr>remote1_high := word_of_int (TEMP_TO_REG (res 0))\<rparr>,
           s\<lparr>trace := trace s @ [Write_byte_data LM83_REG_W_REMOTE1_HIGH (word_of_int (TEMP_TO_REG (res 0)))]\<rparr>,
           n, res)"
  by (simp add: lm83_remote1_temp_def SENSORS_PROC_defs lm83_write_value_def emit_def)

lemma lm83_remote1_temp_READ_again:
  assumes "0 < update_lock d"
    and "lm83_remote1_temp e j SENSORS_PROC_REAL_READ ctl (d, s, n, res) = Some st"
    and "\<not> update_needed e2 j2 (fst st)"
  shows "lm83_remote1_temp e2 j2 SENSORS_PROC_REAL_READ ctl2 st = Some st"
proof -
  obtain d' s' where u: "lm83_update_client e j (d, s) = Some (d', s')"
    and st: "st = (d', s', 2, res(0 := TEMP_FROM_REG (uint (remote1_temp d')),
                                   1 := TEMP_FROM_REG (uint (remote1_high d'))))"
    using assms(2) by (auto simp: lm83_remote1_temp_READ split: option.splits)
  have "update_lock d' = update_lock d"
    using u assms(1) by (cases "update_needed e j d")
      (auto simp: lm83_update_client_stale lm83_update_client_fresh refreshed_def)
  then have "lm83_update_client e2 j2 (d', s') = Some (d', s')"
    using assms(1,3) st by (simp add: lm83_update_client_fresh)
  then show ?thesis
    by (simp add: st lm83_remote1_temp_READ)
qed

lemma lm83_remote1_temp_keeps_highs:
  assumes "operation \<noteq> SENSORS_PROC_REAL_WRITE"
    and "lm83_remote1_temp e j operation ctl (d, s, n, res) = Some (d1, s1, n1, res1)"
  shows "local_high d1 = local_high d \<and> remote1_high d1 = remote1_high d
         \<and> remote2_high d1 = remote2_high d \<and> remote3_high d1 = remote3_high d"
proof (cases "operation = SENSORS_PROC_REAL_READ")
  case True
  with assms(2) obtain s' where "lm83_update_client e j (d, s) = Some (d1, s')"
    by (auto simp: lm83_remote1_temp_READ split: option.splits)
  then show ?thesis using lm83_update_client_highs by blast
next
  case False
  with assms have "d1 = d"
    by (auto simp: lm83_remote1_temp_def split: if_splits)
  then show ?thesis by simp
qed

lemma lm83_remote1_temp_threshold_read:
  assumes "0 < update_lock d" and "- 128 \<le> v" and "v \<le> 127"
    and "remote1_high d = word_of_int (TEMP_TO_REG v)"
  shows "\<exists>d2 s2 res'. lm83_remote1_temp e j SENSORS_PROC_REAL_READ ctl (d, s, n, res)
             = Some (d2, s2, 2, res') \<and> res' 1 = v"
proof -
  obtain d2 s2 where u: "lm83_update_client e j (d, s) = Some (d2, s2)"
    using assms(1) lm83_update_client_returns by blast
  then have "remote1_high d2 = word_of_int (TEMP_TO_REG v)"
    using lm83_update_client_highs [OF u] assms(4) by simp
  then have "TEMP_FROM_REG (uint (remote1_high d2)) = v"
    using assms(2,3) by (simp add: TEMP_roundtrip_u8)
  then show ?thesis
    by (simp add: lm83_remote1_temp_READ u)
qed

lemma lm83_remote1_temp_threshold_write:
  assumes "- 128 \<le> v" and "v \<le> 127" and "1 \<le> n" and "res 0 = v" and "0 < update_lock d"
  shows "\<exists>d1 s1. lm83_remote1_temp e j SENSORS_PROC_REAL_WRITE ctl (d, s, n, res)
             = Some (d1, s1, n, res)
     \<and> remote1_high d1 = word_of_int (TEMP_TO_REG v)
     \<and> trace s1 = trace s @ [Write_byte_data LM83_REG_W_REMOTE1_HIGH (word_of_int (TEMP_TO_REG v))]
     \<and> (\<forall>w. lm83_remote1_temp (e\<lparr>wr := w\<rparr>) j SENSORS_PROC_REAL_WRITE ctl (d, s, n, res)
             = Some (d1, s1, n, res))
     \<and> (\<forall>e2 j2 ctl2 n2 res2. \<exists>d2 s2 res'.
           lm83_remote1_temp e2 j2 SENSORS_PROC_REAL_READ ctl2 (d1, s1, n2, res2)
             = Some (d2, s2, 2, res') \<and> res' 1 = v)"
proof -
  let ?d1 = "d\<lparr>remote1_high := word_of_int (TEMP_TO_REG v)\<rparr>"
  let ?s1 = "s\<lparr>trace := trace s @ [Write_byte_data LM83_REG_W_REMOTE1_HIGH (word_of_int (TEMP_TO_REG v))]\<rparr>"
  have w: "\<And>e :: 'a word env. lm83_remote1_temp e j SENSORS_PROC_REAL_WRITE ctl (d, s, n, res)
             = Some (?d1, ?s1, n, res)"
    using assms(3,4) by (simp add: lm83_remote1_temp_WRITE)
  have "0 < update_lock ?d1" and "remote1_high ?d1 = word_of_int (TEMP_TO_REG v)"
    using assms(5) by simp_all
  then have r: "\<forall>e2 j2 ctl2 n2 res2. \<exists>d2 s2 res'.
           lm83_remote1_temp e2 j2 SENSORS_PROC_REAL_READ ctl2 (?d1, ?s1, n2, res2)
             = Some (d2, s2, 2, res') \<and> res' 1 = v"
    using assms(1,2) lm83_remote1_temp_threshold_read by blast
  show ?thesis
    using w r by (intro exI [of _ ?d1] exI [of _ ?s1]) simp
qed

lemma lm83_remote2_temp_READ:
  "lm83_remote2_temp e j SENSORS_PROC_REAL_READ ctl (d, s, n, res) =
     (case lm83_update_client e j (d, s) of
        None \<Rightarrow> None
      | Some (d', s') \<Rightarrow>
          Some (d', s', 2, res(0 := TEMP_FROM_REG (uint (remote2_temp d')),
                               1 := TEMP_FROM_REG (uint (remote2_high d')))))"
  by (simp add: lm83_remote2_temp_def SENSORS_PROC_defs)

lemma lm83_remote2_temp_WRITE:
  "1 \<le> n \<Longrightarrow>
   lm83_remote2_temp e j SENSORS_PROC_REAL_WRITE ctl (d, s, n, res) =
     Some (d\<lparr>remote2_high := word_of_int (TEMP_TO_REG (res 0))\<rparr>,
           s\<lparr>trace := trace s @ [Write_byte_data LM83_REG_W_REMOTE2_HIGH (word_of_int (TEMP_TO_REG (res 0)))]\<rparr>,
           n, res)"
  by (simp add: lm83_remote2_temp_def SENSORS_PROC_defs lm83_write_value_def emit_def)

lemma lm83_remote2_temp_READ_again:
  assumes "0 < update_lock d"
    and "lm83_remote2_temp e j SENSORS_PROC_REAL_READ ctl (d, s, n, res) = Some st"
    and "\<not> update_needed e2 j2 (fst st)"
  shows "lm83_remote2_temp e2 j2 SENSORS_PROC_REAL_READ ctl2 st = Some st"
proof -
  obtain d' s' where u: "lm83_update_client e j (d, s) = Some (d', s')"
    and st: "st = (d', s', 2, res(0 := TEMP_FROM_REG (uint (remote2_temp d')),
                                   1 := TEMP_FROM_REG (uint (remote2_high d'))))"
    using assms(2) by (auto simp: lm83_remote2_temp_READ split: option.splits)
  have "update_lock d' = update_lock d"
    using u assms(1) by (cases "update_needed e j d")
      (auto simp: lm83_update_client_stale lm83_update_client_fresh refreshed_def)
  then have "lm83_update_client e2 j2 (d', s') = Some (d', s')"
    using assms(1,3) st by (simp add: lm83_update_client_fresh)
  then show ?thesis
    by (simp add: st lm83_remote2_temp_READ)
qed

lemma lm83_remote2_temp_keeps_highs:
  assumes "operation \<noteq> SENSORS_PROC_REAL_WRITE"
    and "lm83_remote2_temp e j operation ctl (d, s, n, res) = Some (d1, s1, n1, res1)"
  shows "local_high d1 = local_high d \<and> remote1_high d1 = remote1_high d
         \<and> remote2_high d1 = remote2_high d \<and> remote3_high d1 = remote3_high d"
proof (cases "operation = SENSORS_PROC_REAL_READ")
  case True
  with assms(2) obtain s' where "lm83_update_client e j (d, s) = Some (d1, s')"
    by (auto simp: lm83_remote2_temp_READ split: option.splits)
  then show ?thesis using lm83_update_client_highs by blast
next
  case False
  with assms have "d1 = d"
    by (auto simp: lm83_remote2_temp_def split: if_splits)
  then show ?thesis by simp
qed

lemma lm83_remote2_temp_threshold_read:
  assumes "0 < update_lock d" and "- 128 \<le> v" and "v \<le> 127"
    and "remote2_high d = word_of_int (TEMP_TO_REG v)"
  shows "\<exists>d2 s2 res'. lm83_remote2_temp e j SENSORS_PROC_REAL_READ ctl (d, s, n, res)
             = Some (d2, s2, 2, res') \<and> res' 1 = v"
proof -
  obtain d2 s2 where u: "lm83_update_client e j (d, s) = Some (d2, s2)"
    using assms(1) lm83_update_client_returns by blast
  then have "remote2_high d2 = word_of_int (TEMP_TO_REG v)"
    using lm83_update_client_highs [OF u] assms(4) by simp
  then have "TEMP_FROM_REG (uint (remote2_high d2)) = v"
    using assms(2,3) by (simp add: TEMP_roundtrip_u8)
  then show ?thesis
    by (simp add: lm83_remote2_temp_READ u)
qed

lemma lm83_remote2_temp_threshold_write:
  assumes "- 128 \<le> v" and "v \<le> 127" and "1 \<le> n" and "res 0 = v" and "0 < update_lock d"
  shows "\<exists>d1 s1. lm83_remote2_temp e j SENSORS_PROC_REAL_WRITE ctl (d, s, n, res)
             = Some (d1, s1, n, res)
     \<and> remote2_high d1 = word_of_int (TEMP_TO_REG v)
     \<and> trace s1 = trace s @ [Write_byte_data LM83_REG_W_REMOTE2_HIGH (word_of_int (TEMP_TO_REG v))]
     \<and> (\<forall>w. lm83_remote2_temp (e\<lparr>wr := w\<rparr>) j SENSORS_PROC_REAL_WRITE ctl (d, s, n, res)
             = Some (d1, s1, n, res))
     \<and> (\<forall>e2 j2 ctl2 n2 res2. \<exists>d2 s2 res'.
           lm83_remote2_temp e2 j2 SENSORS_PROC_REAL_READ ctl2 (d1, s1, n2, res2)
             = Some (d2, s2, 2, res') \<and> res' 1 = v)"
proof -
  let ?d1 = "d\<lparr>remote2_high := word_of_int (TEMP_TO_REG v)\<rparr>"
  let ?s1 = "s\<lparr>trace := trace s @ [Write_byte_data LM83_REG_W_REMOTE2_HIGH (word_of_int (TEMP_TO_REG v))]\<rparr>"
  have w: "\<And>e :: 'a word env. lm83_remote2_temp e j SENSORS_PROC_REAL_WRITE ctl (d, s, n, res)
             = Some (?d1, ?s1, n, res)"
    using assms(3,4) by (simp add: lm83_remote2_temp_WRITE)
  have "0 < update_lock ?d1" and "remote2_high ?d1 = word_of_int (TEMP_TO_REG v)"
    using assms(5) by simp_all
  then have r: "\<forall>e2 j2 ctl2 n2 res2. \<exists>d2 s2 res'.
           lm83_remote2_temp e2 j2 SENSORS_PROC_REAL_READ ctl2 (?d1, ?s1, n2, res2)
             = Some (d2, s2, 2, res') \<and> res' 1 = v"
    using assms(1,2) lm83_remote2_temp_threshold_read by blast
  show ?thesis
    using w r by (intro exI [of _ ?d1] exI [of _ ?s1]) simp
qed

lemma lm83_remote3_temp_READ:
  "lm83_remote3_temp e j SENSORS_PROC_REAL_READ ctl (d, s, n, res) =
     (case lm83_update_client e j (d, s) of
        None \<Rightarrow> None
      | Some (d', s') \<Rightarrow>
          Some (d', s', 2, res(0 := TEMP_FROM_REG (uint (remote3_temp d')),
                               1 := TEMP_FROM_REG (uint (remote3_high d')))))"
  by (simp add: lm83_remote3_temp_def SENSORS_PROC_defs)

lemma lm83_remote3_temp_WRITE:
  "1 \<le> n \<Longrightarrow>
   lm83_remote3_temp e j SENSORS_PROC_REAL_WRITE ctl (d, s, n, res) =
     Some (d\<lparr>remote3_high := word_of_int (TEMP_TO_REG (res 0))\<rparr>,
           s\<lparr>trace := trace s @ [Write_byte_data LM83_REG_W_REMOTE3_HIGH (word_of_int (TEMP_TO_REG (res 0)))]\<rparr>,
           n, res)"
  by (simp add: lm83_remote3_temp_def SENSORS_PROC_defs lm83_write_value_def emit_def)

lemma lm83_remote3_temp_READ_again:
  assumes "0 < update_lock d"
    and "lm83_remote3_temp e j SENSORS_PROC_REAL_READ ctl (d, s, n, res) = Some st"
    and "\<not> update_needed e2 j2 (fst st)"
  shows "lm83_remote3_temp e2 j2 SENSORS_PROC_REAL_READ ctl2 st = Some st"
proof -
  obtain d' s' where u: "lm83_update_client e j (d, s) = Some (d', s')"
    and st: "st = (d', s', 2, res(0 := TEMP_FROM_REG (uint (remote3_temp d')),
                                   1 := TEMP_FROM_REG (uint (remote3_high d'))))"
    using assms(2) by (auto simp: lm83_remote3_temp_READ split: option.splits)
  have "update_lock d' = update_lock d"
    using u assms(1) by (cases "update_needed e j d")
      (auto simp: lm83_update_client_stale lm83_update_client_fresh refreshed_def)
  then have "lm83_update_client e2 j2 (d', s') = Some (d', s')"
    using assms(1,3) st by (simp add: lm83_update_client_fresh)
  then show ?thesis
    by (simp add: st lm83_remote3_temp_READ)
qed

lemma lm83_remote3_temp_keeps_highs:
  assumes "operation \<noteq> SENSORS_PROC_REAL_WRITE"
    and "lm83_remote3_temp e j operation ctl (d, s, n, res) = Some (d1, s1, n1, res1)"
  shows "local_high d1 = local_high d \<and> remote1_high d1 = remote1_high d
         \<and> remote2_high d1 = remote2_high d \<and> remote3_high d1 = remote3_high d"
proof (cases "operation = SENSORS_PROC_REAL_READ")
  case True
  with assms(2) obtain s' where "lm83_update_client e j (d, s) = Some (d1, s')"
    by (auto simp: lm83_remote3_temp_READ split: option.splits)
  then show ?thesis using lm83_update_client_highs by blast
next
  case False
  with assms have "d1 = d"
    by (auto simp: lm83_remote3_temp_def split: if_splits)
  then show ?thesis by simp
qed

lemma lm83_remote3_temp_threshold_read:
  assumes "0 < update_lock d" and "- 128 \<le> v" and "v \<le> 127"
    and "remote3_high d = word_of_int (TEMP_TO_REG v)"
  shows "\<exists>d2 s2 res'. lm83_remote3_temp e j SENSORS_PROC_REAL_READ ctl (d, s, n, res)
             = Some (d2, s2, 2, res') \<and> res' 1 = v"
proof -
  obtain d2 s2 where u: "lm83_update_client e j (d, s) = Some (d2, s2)"
    using assms(1) lm83_update_client_returns by blast
  then have "remote3_high d2 = word_of_int (TEMP_TO_REG v)"
    using lm83_update_client_highs [OF u] assms(4) by simp
  then have "TEMP_FROM_REG (uint (remote3_high d2)) = v"
    using assms(2,3) by (simp add: TEMP_roundtrip_u8)
  then show ?thesis
    by (simp add: lm83_remote3_temp_READ u)
qed

lemma lm83_remote3_temp_threshold_write:
  assumes "- 128 \<le> v" and "v \<le> 127" and "1 \<le> n" and "res 0 = v" and "0 < update_lock d"
  shows "\<exists>d1 s1. lm83_remote3_temp e j SENSORS_PROC_REAL_WRITE ctl (d, s, n, res)
             = Some (d1, s1, n, res)
     \<and> remote3_high d1 = word_of_int (TEMP_TO_REG v)
     \<and> trace s1 = trace s @ [Write_byte_data LM83_REG_W_REMOTE3_HIGH (word_of_int (TEMP_TO_REG v))]
     \<and> (\<forall>w. lm83_remote3_temp (e\<lparr>wr := w\<rparr>) j SENSORS_PROC_REAL_WRITE ctl (d, s, n, res)
             = Some (d1, s1, n, res))
     \<and> (\<forall>e2 j2 ctl2 n2 res2. \<exists>d2 s2 res'.
           lm83_remote3_temp e2 j2 SENSORS_PROC_REAL_READ ctl2 (d1, s1, n2, res2)
             = Some (d2, s2, 2, res') \<and> res' 1 = v)"
proof -
  let ?d1 = "d\<lparr>remote3_high := word_of_int (TEMP_TO_REG v)\<rparr>"
  let ?s1 = "s\<lparr>trace := trace s @ [Write_byte_data LM83_REG_W_REMOTE3_HIGH (word_of_int (TEMP_TO_REG v))]\<rparr>"
  have w: "\<And>e :: 'a word env. lm83_remote3_temp e j SENSORS_PROC_REAL_WRITE ctl (d, s, n, res)
             = Some (?d1, ?s1, n, res)"
    using assms(3,4) by (simp add: lm83_remote3_temp_WRITE)
  have "0 < update_lock ?d1" and "remote3_high ?d1 = word_of_int (TEMP_TO_REG v)"
    using assms(5) by simp_all
  then have r: "\<forall>e2 j2 ctl2 n2 res2. \<exists>d2 s2 res'.
           lm83_remote3_temp e2 j2 SENSORS_PROC_REAL_READ ctl2 (?d1, ?s1, n2, res2)
             = Some (d2, s2, 2, res') \<and> res' 1 = v"
    using assms(1,2) lm83_remote3_temp_threshold_read by blast
  show ?thesis
    using w r by (intro exI [of _ ?d1] exI [of _ ?s1]) simp
qed

lemma channels_READ_again:
  assumes "(h, high, wreg) \<in> set channels" and "0 < update_lock d"
    and "h e j SENSORS_PROC_REAL_READ ctl (d, s, n, res) = Some st"
    and "\<not> update_needed e2 j2 (fst st)"
  shows "h e2 j2 SENSORS_PROC_REAL_READ ctl2 st = Some st"
proof -
  from assms(1) consider "h = lm83_local_temp" | "h = lm83_remote1_temp"
    | "h = lm83_remote2_temp" | "h = lm83_remote3_temp"
    by (auto simp: channels_def)
  then show ?thesis
  proof cases
    case 1
    with assms(2-4) show ?thesis using lm83_local_temp_READ_again by blast
  next
    case 2
    with assms(2-4) show ?thesis using lm83_remote1_temp_READ_again by blast
  next
    case 3
    with assms(2-4) show ?thesis using lm83_remote2_temp_READ_again by blast
  next
    case 4
    with assms(2-4) show ?thesis using lm83_remote3_temp_READ_again by blast
  qed
qed

lemma channels_keep_highs:
  assumes "(h, high, wreg) \<in> set channels" and "operation \<noteq> SENSORS_PROC_REAL_WRITE"
    and "h e j operation ctl (d, s, n, res) = Some (d1, s1, n1, res1)"
  shows "local_high d1 = local_high d \<and> remote1_high d1 = remote1_high d
         \<and> remote2_high d1 = remote2_high d \<and> remote3_high d1 = remote3_high d"
proof -
  from assms(1) consider "h = lm83_local_temp" | "h = lm83_remote1_temp"
    | "h = lm83_remote2_temp" | "h = lm83_remote3_temp"
    by (auto simp: channels_def)
  then show ?thesis
  proof cases
    case 1
    with assms(2,3) show ?thesis using lm83_local_temp_keeps_highs by blast
  next
    case 2
    with assms(2,3) show ?thesis using lm83_remote1_temp_keeps_highs by blast
  next
    case 3
    with assms(2,3) show ?thesis using lm83_remote2_temp_keeps_highs by blast
  next
    case 4
    with assms(2,3) show ?thesis using lm83_remote3_temp_keeps_highs by blast
  qed
qed

subsection \<open>Refresh and staleness\<close>

text \<open>
  Claim C1. With the lock free, \<^verbatim>\<open>lm83_update_client\<close> returns, and it makes the four
  temperature-register reads exactly when the staleness predicate holds (the cache is
  not valid, or more than 1.5 poll intervals have passed, or the clock is behind the last
  update); when the predicate is false it makes no transfer and leaves the cache as it
  was. Hence a read through any of the four callbacks that follows a first read within
  the staleness window makes no transfer and returns what the first read returned.
\<close>

theorem update_client_reads_iff_stale:
  fixes e :: "'a::len word env"
  assumes lock: "0 < update_lock d"
    and hz: "0 \<le> HZ e" "HZ e + HZ e div 2 < 2 ^ LENGTH('a)"
  shows "\<exists>d' s'. lm83_update_client e now (d, s) = Some (d', s')
     \<and> (if staleness_predicate (HZ e) (valid d \<noteq> 0) (uint (last_updated d)) (uint now)
        then trace s' = trace s @
               [Read_byte_data LM83_REG_R_LOCAL_TEMP, Read_byte_data LM83_REG_R_REMOTE1_TEMP,
                Read_byte_data LM83_REG_R_REMOTE2_TEMP, Read_byte_data LM83_REG_R_REMOTE3_TEMP]
        else d' = d \<and> s' = s)
     \<and> (\<forall>(h, high, wreg)\<in>set channels. \<forall>ctl n res st now2 ctl2.
          h e now SENSORS_PROC_REAL_READ ctl (d, s, n, res) = Some st
          \<and> \<not> staleness_predicate (HZ e) (valid (fst st) \<noteq> 0)
                 (uint (last_updated (fst st))) (uint now2)
          \<longrightarrow> h e now2 SENSORS_PROC_REAL_READ ctl2 st = Some st)"
proof -
  have again: "\<forall>(h, high, wreg)\<in>set channels. \<forall>ctl n res st now2 ctl2.
          h e now SENSORS_PROC_REAL_READ ctl (d, s, n, res) = Some st
          \<and> \<not> staleness_predicate (HZ e) (valid (fst st) \<noteq> 0)
                 (uint (last_updated (fst st))) (uint now2)
          \<longrightarrow> h e now2 SENSORS_PROC_REAL_READ ctl2 st = Some st"
  proof (intro ballI, clarify)
    fix h high wreg ctl n res d1 s1 n1 res1 ctl2 and now2 :: "'a word"
    assume ch: "(h, high :: 'a word lm83_data \<Rightarrow> u8, wreg) \<in> set channels"
      and rd1: "h e now SENSORS_PROC_REAL_READ ctl (d, s, n, res) = Some (d1, s1, n1, res1)"
      and fresh: "\<not> staleness_predicate (HZ e) (valid (fst (d1, s1, n1, res1)) \<noteq> 0)
                 (uint (last_updated (fst (d1, s1, n1, res1)))) (uint now2)"
    from fresh have "\<not> update_needed e now2 (fst (d1, s1, n1, res1))"
      using hz by (simp add: update_needed_spec)
    with ch lock rd1
    show "h e now2 SENSORS_PROC_REAL_READ ctl2 (d1, s1, n1, res1) = Some (d1, s1, n1, res1)"
      by (rule channels_READ_again)
  qed
  show ?thesis
  proof (cases "update_needed e now d")
    case True
    then have "staleness_predicate (HZ e) (valid d \<noteq> 0) (uint (last_updated d)) (uint now)"
      using hz by (simp add: update_needed_spec)
    moreover have "lm83_update_client e now (d, s)
        = Some (refreshed e now d, s\<lparr>trace := trace s @ temp_reads\<rparr>)"
      using lock True by (rule lm83_update_client_stale)
    ultimately show ?thesis using again by (simp add: temp_reads_def)
  next
    case False
    then have "\<not> staleness_predicate (HZ e) (valid d \<noteq> 0) (uint (last_updated d)) (uint now)"
      using hz by (simp add: update_needed_spec)
    moreover have "lm83_update_client e now (d, s) = Some (d, s)"
      using lock False by (rule lm83_update_client_fresh)
    ultimately show ?thesis using again by simp
  qed
qed

theorem update_client_reads_iff_stale_witness:
  "0 < update_lock ex_data \<and> 0 \<le> HZ ex_env \<and> HZ ex_env + HZ ex_env div 2 < 2 ^ LENGTH(32)
   \<and> staleness_predicate (HZ ex_env) (valid ex_data \<noteq> 0) (uint (last_updated ex_data))
        (uint (2000 :: 32 word))
   \<and> (\<exists>d' s'. lm83_update_client ex_env 2000 (ex_data, ex_sys) = Some (d', s')
        \<and> trace s' = trace ex_sys @
             [Read_byte_data LM83_REG_R_LOCAL_TEMP, Read_byte_data LM83_REG_R_REMOTE1_TEMP,
              Read_byte_data LM83_REG_R_REMOTE2_TEMP, Read_byte_data LM83_REG_R_REMOTE3_TEMP])
   \<and> \<not> staleness_predicate (HZ ex_env) (valid ex_data \<noteq> 0) (uint (last_updated ex_data))
        (uint (1100 :: 32 word))
   \<and> lm83_update_client ex_env 1100 (ex_data, ex_sys) = Some (ex_data, ex_sys)
   \<and> (lm83_local_temp, local_high, LM83_REG_W_LOCAL_HIGH) \<in> set channels
   \<and> lm83_local_temp ex_env 2000 SENSORS_PROC_REAL_READ 1200 (ex_data, ex_sys, 1, ex_results)
       = Some ex_read_state
   \<and> \<not> staleness_predicate (HZ ex_env) (valid (fst ex_read_state) \<noteq> 0)
        (uint (last_updated (fst ex_read_state))) (uint (2100 :: 32 word))
   \<and> lm83_local_temp ex_env 2100 SENSORS_PROC_REAL_READ 1200 ex_read_state = Some ex_read_state"
proof -
  have h1: "0 < update_lock ex_data" by (simp add: ex_data_def)
  have h2: "0 \<le> HZ ex_env" by (simp add: ex_env_def)
  have h3: "HZ ex_env + HZ ex_env div 2 < 2 ^ LENGTH(32)" by (simp add: ex_env_def)
  have st: "staleness_predicate (HZ ex_env) (valid ex_data \<noteq> 0) (uint (last_updated ex_data))
        (uint (2000 :: 32 word))"
    by (simp add: staleness_predicate_def ex_env_def ex_data_def)
  have fr: "\<not> staleness_predicate (HZ ex_env) (valid ex_data \<noteq> 0) (uint (last_updated ex_data))
        (uint (1100 :: 32 word))"
    by (simp add: staleness_predicate_def ex_env_def ex_data_def)
  from update_client_reads_iff_stale [OF h1 h2 h3, of 2000 ex_sys] st
  have a: "\<exists>d' s'. lm83_update_client ex_env 2000 (ex_data, ex_sys) = Some (d', s')
        \<and> trace s' = trace ex_sys @
             [Read_byte_data LM83_REG_R_LOCAL_TEMP, Read_byte_data LM83_REG_R_REMOTE1_TEMP,
              Read_byte_data LM83_REG_R_REMOTE2_TEMP, Read_byte_data LM83_REG_R_REMOTE3_TEMP]"
    by auto
  from update_client_reads_iff_stale [OF h1 h2 h3, of 1100 ex_sys] fr
  have b: "lm83_update_client ex_env 1100 (ex_data, ex_sys) = Some (ex_data, ex_sys)"
    by auto
  have m: "(lm83_local_temp, local_high, LM83_REG_W_LOCAL_HIGH) \<in> set channels"
    by (simp add: channels_def)
  have r1: "lm83_local_temp ex_env 2000 SENSORS_PROC_REAL_READ 1200
              (ex_data, ex_sys, 1, ex_results) = Some ex_read_state"
    by (simp add: lm83_local_temp_def lm83_update_client_def update_needed_def down_def up_def
        lm83_read_value_def emit_def ex_defs ex_read_state_def temp_reads_def LM83_REG_defs
        SENSORS_PROC_defs TEMP_FROM_REG_def)
  have fr2: "\<not> staleness_predicate (HZ ex_env) (valid (fst ex_read_state) \<noteq> 0)
             (uint (last_updated (fst ex_read_state))) (uint (2100 :: 32 word))"
    by (simp add: staleness_predicate_def ex_read_state_def ex_env_def ex_data_def)
  from update_client_reads_iff_stale [OF h1 h2 h3, of 2000 ex_sys]
  have "\<forall>(h, high, wreg)\<in>set channels. \<forall>ctl n res st now2 ctl2.
          h ex_env 2000 SENSORS_PROC_REAL_READ ctl (ex_data, ex_sys, n, res) = Some st
          \<and> \<not> staleness_predicate (HZ ex_env) (valid (fst st) \<noteq> 0)
                 (uint (last_updated (fst st))) (uint now2)
          \<longrightarrow> h ex_env now2 SENSORS_PROC_REAL_READ ctl2 st = Some st"
    by blast
  with m have "\<forall>ctl n res st now2 ctl2.
          lm83_local_temp ex_env 2000 SENSORS_PROC_REAL_READ ctl (ex_data, ex_sys, n, res)
            = Some st
          \<and> \<not> staleness_predicate (HZ ex_env) (valid (fst st) \<noteq> 0)
                 (uint (last_updated (fst st))) (uint now2)
          \<longrightarrow> lm83_local_temp ex_env now2 SENSORS_PROC_REAL_READ ctl2 st = Some st"
    by fast
  with r1 fr2
  have r2: "lm83_local_temp ex_env 2100 SENSORS_PROC_REAL_READ 1200 ex_read_state
              = Some ex_read_state"
    by blast
  from h1 h2 h3 st fr a b m r1 fr2 r2 show ?thesis by blast
qed

subsection \<open>A failing transfer during a refresh\<close>

text \<open>
  Claim C2 as stated fails. On a stale cache that was never filled, with the read of the
  remote2 temperature register failing (\<open>-1\<close>), the refresh stores the three readings
  that arrived and \<open>255\<close> for the failed one, sets \<open>valid\<close> and moves \<open>last_updated\<close>
  from \<open>1000\<close> to \<open>2000\<close>: nothing of the previous cache is kept.
\<close>

theorem refresh_keeps_cache_on_failure_counterexample:
  "rd (ex_env\<lparr>rd := remote2_fails_rd\<rparr>) LM83_REG_R_REMOTE2_TEMP = - 1
   \<and> lm83_update_client (ex_env\<lparr>rd := remote2_fails_rd\<rparr>) 2000 (ex_data\<lparr>valid := 0\<rparr>, ex_sys)
       = Some (ex_data\<lparr>local_temp := 80, remote1_temp := 156, remote2_temp := 255,
                 remote3_temp := 0, last_updated := 2000\<rparr>,
               ex_sys\<lparr>trace := temp_reads\<rparr>)
   \<and> valid ex_data = 1 \<and> local_temp ex_data = 20 \<and> remote2_temp ex_data = 22
   \<and> last_updated ex_data = 1000"
  by (simp add: lm83_update_client_def update_needed_def down_def up_def lm83_read_value_def
      emit_def ex_defs temp_reads_def LM83_REG_defs)

text \<open>
  Claim C2, amended. \<^verbatim>\<open>lm83_update_client\<close> does not look at the result of a transfer.
  Whenever a refresh is due, every cached reading becomes the low eight bits of what its
  read returned (\<open>255\<close> for a read that failed with \<open>-1\<close>), \<open>valid\<close> becomes \<open>1\<close> and
  \<open>last_updated\<close> the current time; the function returns no status, so no error reaches
  the caller; the lock count is the same after the call as before.
\<close>

theorem refresh_commits_failed_reads:
  assumes "0 < update_lock d" and "update_needed e now d"
  shows "\<exists>d' s'. lm83_update_client e now (d, s) = Some (d', s')
     \<and> d' = d\<lparr>local_temp := word_of_int (rd e LM83_REG_R_LOCAL_TEMP),
              remote1_temp := word_of_int (rd e LM83_REG_R_REMOTE1_TEMP),
              remote2_temp := word_of_int (rd e LM83_REG_R_REMOTE2_TEMP),
              remote3_temp := word_of_int (rd e LM83_REG_R_REMOTE3_TEMP),
              last_updated := now, valid := 1\<rparr>
     \<and> s' = s\<lparr>trace := trace s @
              [Read_byte_data LM83_REG_R_LOCAL_TEMP, Read_byte_data LM83_REG_R_REMOTE1_TEMP,
               Read_byte_data LM83_REG_R_REMOTE2_TEMP, Read_byte_data LM83_REG_R_REMOTE3_TEMP]\<rparr>
     \<and> update_lock d' = update_lock d
     \<and> (rd e LM83_REG_R_LOCAL_TEMP = - 1 \<longrightarrow> local_temp d' = 255)
     \<and> (rd e LM83_REG_R_REMOTE1_TEMP = - 1 \<longrightarrow> remote1_temp d' = 255)
     \<and> (rd e LM83_REG_R_REMOTE2_TEMP = - 1 \<longrightarrow> remote2_temp d' = 255)
     \<and> (rd e LM83_REG_R_REMOTE3_TEMP = - 1 \<longrightarrow> remote3_temp d' = 255)"
proof -
  let ?d' = "d\<lparr>local_temp := word_of_int (rd e LM83_REG_R_LOCAL_TEMP),
              remote1_temp := word_of_int (rd e LM83_REG_R_REMOTE1_TEMP),
              remote2_temp := word_of_int (rd e LM83_REG_R_REMOTE2_TEMP),
              remote3_temp := word_of_int (rd e LM83_REG_R_REMOTE3_TEMP),
              last_updated := now, valid := 1\<rparr>"
  have run: "lm83_update_client e now (d, s)
      = Some (refreshed e now d, s\<lparr>trace := trace s @ temp_reads\<rparr>)"
    using assms by (rule lm83_update_client_stale)
  have d': "refreshed e now d = ?d'"
    by (simp add: refreshed_def)
  have lock: "update_lock ?d' = update_lock d"
    by simp
  have failed: "(word_of_int (- 1) :: u8) = 255"
    by simp
  show ?thesis
    using run d' lock failed by (simp add: temp_reads_def)
qed

theorem refresh_commits_failed_reads_witness:
  "0 < update_lock ex_data \<and> update_needed (ex_env\<lparr>rd := dead_bus_rd\<rparr>) 2000 ex_data
   \<and> rd (ex_env\<lparr>rd := dead_bus_rd\<rparr>) LM83_REG_R_LOCAL_TEMP = - 1
   \<and> lm83_update_client (ex_env\<lparr>rd := dead_bus_rd\<rparr>) 2000 (ex_data, ex_sys)
       = Some (ex_data\<lparr>local_temp := 255, remote1_temp := 255, remote2_temp := 255,
                 remote3_temp := 255, last_updated := 2000\<rparr>,
               ex_sys\<lparr>trace := temp_reads\<rparr>)"
proof -
  have h1: "0 < update_lock ex_data" by (simp add: ex_data_def)
  have h2: "update_needed (ex_env\<lparr>rd := dead_bus_rd\<rparr>) 2000 ex_data"
    by (simp add: update_needed_def ex_env_def ex_data_def signed_divide_int_def)
  from refresh_commits_failed_reads [OF h1 h2, of ex_sys] h1 h2 show ?thesis
    by (auto simp: ex_defs temp_reads_def)
qed

subsection \<open>The refresh and the thresholds\<close>

text \<open>
  Claim C10. A refresh leaves the four cached thresholds as they were: it changes at
  most the four readings, \<open>valid\<close> and \<open>last_updated\<close>, and the only transfers it makes
  are reads of the four temperature registers. So does every callback operation other
  than a write.
\<close>

theorem refresh_leaves_thresholds:
  assumes "0 < update_lock d"
  shows "\<exists>d' s' tr. lm83_update_client e now (d, s) = Some (d', s')
     \<and> local_high d' = local_high d \<and> remote1_high d' = remote1_high d
     \<and> remote2_high d' = remote2_high d \<and> remote3_high d' = remote3_high d
     \<and> d' = d\<lparr>local_temp := local_temp d', remote1_temp := remote1_temp d',
                remote2_temp := remote2_temp d', remote3_temp := remote3_temp d',
                valid := valid d', last_updated := last_updated d'\<rparr>
     \<and> s' = s\<lparr>trace := trace s @ tr\<rparr>
     \<and> set tr \<subseteq> Read_byte_data ` {LM83_REG_R_LOCAL_TEMP, LM83_REG_R_REMOTE1_TEMP,
                                         LM83_REG_R_REMOTE2_TEMP, LM83_REG_R_REMOTE3_TEMP}
     \<and> (\<forall>(h, high, wreg)\<in>set channels. \<forall>operation ctl n res d1 s1 n1 res1.
          operation \<noteq> SENSORS_PROC_REAL_WRITE
          \<and> h e now operation ctl (d, s, n, res) = Some (d1, s1, n1, res1)
          \<longrightarrow> local_high d1 = local_high d \<and> remote1_high d1 = remote1_high d
              \<and> remote2_high d1 = remote2_high d \<and> remote3_high d1 = remote3_high d)"
proof -
  obtain d' s' where u: "lm83_update_client e now (d, s) = Some (d', s')"
    using assms lm83_update_client_returns by blast
  have fr: "d' = d\<lparr>local_temp := local_temp d', remote1_temp := remote1_temp d',
                remote2_temp := remote2_temp d', remote3_temp := remote3_temp d',
                valid := valid d', last_updated := last_updated d'\<rparr>"
    using u by (rule lm83_update_client_frame(1))
  have "s' = s \<or> s' = s\<lparr>trace := trace s @ temp_reads\<rparr>"
    using u by (rule lm83_update_client_frame(2))
  then have "\<exists>tr. s' = s\<lparr>trace := trace s @ tr\<rparr>
     \<and> set tr \<subseteq> Read_byte_data ` {LM83_REG_R_LOCAL_TEMP, LM83_REG_R_REMOTE1_TEMP,
                                         LM83_REG_R_REMOTE2_TEMP, LM83_REG_R_REMOTE3_TEMP}"
  proof
    assume "s' = s"
    then have "s' = s\<lparr>trace := trace s @ []\<rparr>
      \<and> set ([] :: event list) \<subseteq> Read_byte_data ` {LM83_REG_R_LOCAL_TEMP,
            LM83_REG_R_REMOTE1_TEMP, LM83_REG_R_REMOTE2_TEMP, LM83_REG_R_REMOTE3_TEMP}"
      by simp
    then show ?thesis by (rule exI)
  next
    assume "s' = s\<lparr>trace := trace s @ temp_reads\<rparr>"
    moreover have "set temp_reads \<subseteq> Read_byte_data ` {LM83_REG_R_LOCAL_TEMP,
        LM83_REG_R_REMOTE1_TEMP, LM83_REG_R_REMOTE2_TEMP, LM83_REG_R_REMOTE3_TEMP}"
      by (simp add: temp_reads_def)
    ultimately show ?thesis by blast
  qed
  moreover have "\<forall>(h, high, wreg)\<in>set channels. \<forall>operation ctl n res d1 s1 n1 res1.
          operation \<noteq> SENSORS_PROC_REAL_WRITE
          \<and> h e now operation ctl (d, s, n, res) = Some (d1, s1, n1, res1)
          \<longrightarrow> local_high d1 = local_high d \<and> remote1_high d1 = remote1_high d
              \<and> remote2_high d1 = remote2_high d \<and> remote3_high d1 = remote3_high d"
  proof (intro ballI, clarify)
    fix h high wreg operation ctl n res d1 s1 n1 res1
    assume "(h, high :: 'a word lm83_data \<Rightarrow> u8, wreg) \<in> set channels"
      and "operation \<noteq> SENSORS_PROC_REAL_WRITE"
      and "h e now operation ctl (d, s, n, res) = Some (d1, s1, n1, res1)"
    then show "local_high d1 = local_high d \<and> remote1_high d1 = remote1_high d
              \<and> remote2_high d1 = remote2_high d \<and> remote3_high d1 = remote3_high d"
      by (rule channels_keep_highs)
  qed
  ultimately show ?thesis
    using u fr lm83_update_client_highs [OF u] by blast
qed

theorem refresh_leaves_thresholds_witness:
  "0 < update_lock ex_data
   \<and> (\<exists>d' s'. lm83_update_client ex_env 2000 (ex_data, ex_sys) = Some (d', s')
        \<and> local_high d' = 127 \<and> remote1_high d' = 127
        \<and> remote2_high d' = 127 \<and> remote3_high d' = 127)
   \<and> (lm83_local_temp, local_high, LM83_REG_W_LOCAL_HIGH) \<in> set channels
   \<and> SENSORS_PROC_REAL_READ \<noteq> SENSORS_PROC_REAL_WRITE
   \<and> lm83_local_temp ex_env 2000 SENSORS_PROC_REAL_READ 1200 (ex_data, ex_sys, 1, ex_results)
       = Some ex_read_state
   \<and> local_high (fst ex_read_state) = 127 \<and> remote1_high (fst ex_read_state) = 127
   \<and> remote2_high (fst ex_read_state) = 127 \<and> remote3_high (fst ex_read_state) = 127"
proof -
  have h: "0 < update_lock ex_data" by (simp add: ex_data_def)
  from refresh_leaves_thresholds [OF h, of ex_env 2000 ex_sys]
  have "\<exists>d' s'. lm83_update_client ex_env 2000 (ex_data, ex_sys) = Some (d', s')
        \<and> local_high d' = local_high ex_data \<and> remote1_high d' = remote1_high ex_data
        \<and> remote2_high d' = remote2_high ex_data \<and> remote3_high d' = remote3_high ex_data"
    by blast
  then have a: "\<exists>d' s'. lm83_update_client ex_env 2000 (ex_data, ex_sys) = Some (d', s')
        \<and> local_high d' = 127 \<and> remote1_high d' = 127
        \<and> remote2_high d' = 127 \<and> remote3_high d' = 127"
    by (simp add: ex_data_def)
  have m: "(lm83_local_temp, local_high, LM83_REG_W_LOCAL_HIGH) \<in> set channels"
    by (simp add: channels_def)
  have op: "SENSORS_PROC_REAL_READ \<noteq> SENSORS_PROC_REAL_WRITE"
    by (simp add: SENSORS_PROC_defs)
  have r1: "lm83_local_temp ex_env 2000 SENSORS_PROC_REAL_READ 1200
              (ex_data, ex_sys, 1, ex_results) = Some ex_read_state"
    by (simp add: lm83_local_temp_def lm83_update_client_def update_needed_def down_def up_def
        lm83_read_value_def emit_def ex_defs ex_read_state_def temp_reads_def LM83_REG_defs
        SENSORS_PROC_defs TEMP_FROM_REG_def)
  from refresh_leaves_thresholds [OF h, of ex_env 2000 ex_sys]
  have "\<forall>(h, high, wreg)\<in>set channels. \<forall>operation ctl n res d1 s1 n1 res1.
          operation \<noteq> SENSORS_PROC_REAL_WRITE
          \<and> h ex_env 2000 operation ctl (ex_data, ex_sys, n, res) = Some (d1, s1, n1, res1)
          \<longrightarrow> local_high d1 = local_high ex_data \<and> remote1_high d1 = remote1_high ex_data
              \<and> remote2_high d1 = remote2_high ex_data \<and> remote3_high d1 = remote3_high ex_data"
    by blast
  with m have "\<forall>operation ctl n res d1 s1 n1 res1.
          operation \<noteq> SENSORS_PROC_REAL_WRITE
          \<and> lm83_local_temp ex_env 2000 operation ctl (ex_data, ex_sys, n, res)
              = Some (d1, s1, n1, res1)
          \<longrightarrow> local_high d1 = local_high ex_data \<and> remote1_high d1 = remote1_high ex_data
              \<and> remote2_high d1 = remote2_high ex_data \<and> remote3_high d1 = remote3_high ex_data"
    by fast
  with op r1
  have "local_high (fst ex_read_state) = local_high ex_data
      \<and> remote1_high (fst ex_read_state) = remote1_high ex_data
      \<and> remote2_high (fst ex_read_state) = remote2_high ex_data
      \<and> remote3_high (fst ex_read_state) = remote3_high ex_data"
    by (metis fst_conv prod.collapse)
  then have b: "local_high (fst ex_read_state) = 127 \<and> remote1_high (fst ex_read_state) = 127
   \<and> remote2_high (fst ex_read_state) = 127 \<and> remote3_high (fst ex_read_state) = 127"
    by (simp add: ex_data_def)
  from h a m op r1 b show ?thesis by blast
qed

section \<open>Writing a threshold\<close>

text \<open>
  Claim C8. For each of the four channels and every \<open>v\<close> in \<open>[-128, 127]\<close>, a write of
  \<open>v\<close> (with at least one value supplied) stores the encoding of \<open>v\<close> in the channel's
  cached threshold and sends that byte to the channel's threshold register; the outcome
  is the same whatever the transfer returns; and any read of the channel that follows
  reports the threshold \<open>v\<close>, whether or not it refreshes the readings. In particular
  \<open>-10\<close> on remote2 sends byte \<open>246\<close> to register \<open>0x0D\<close> and reads back as \<open>-10\<close>.
\<close>

theorem threshold_write_then_read:
  fixes e :: "'a::len word env"
  assumes "- 128 \<le> v" and "v \<le> 127" and "1 \<le> n" and "res 0 = v" and "0 < update_lock d"
  shows "\<forall>(h, high, wreg)\<in>set channels.
     \<exists>d1 s1. h e now SENSORS_PROC_REAL_WRITE ctl (d, s, n, res) = Some (d1, s1, n, res)
       \<and> high d1 = word_of_int (TEMP_TO_REG v)
       \<and> trace s1 = trace s @ [Write_byte_data wreg (word_of_int (TEMP_TO_REG v))]
       \<and> (\<forall>w. h (e\<lparr>wr := w\<rparr>) now SENSORS_PROC_REAL_WRITE ctl (d, s, n, res)
               = Some (d1, s1, n, res))
       \<and> (\<forall>e2 now2 ctl2 n2 res2. \<exists>d2 s2 res'.
             h e2 now2 SENSORS_PROC_REAL_READ ctl2 (d1, s1, n2, res2) = Some (d2, s2, 2, res')
             \<and> res' 1 = v)"
  using lm83_local_temp_threshold_write [where v = v and n = n and res = res and d = d and e = e
      and j = now and ctl = ctl and s = s, OF assms]
    lm83_remote1_temp_threshold_write [where v = v and n = n and res = res and d = d and e = e
      and j = now and ctl = ctl and s = s, OF assms]
    lm83_remote2_temp_threshold_write [where v = v and n = n and res = res and d = d and e = e
      and j = now and ctl = ctl and s = s, OF assms]
    lm83_remote3_temp_threshold_write [where v = v and n = n and res = res and d = d and e = e
      and j = now and ctl = ctl and s = s, OF assms]
  by (simp add: channels_def)

theorem threshold_write_then_read_witness:
  "(- 128 :: int) \<le> - 10 \<and> (- 10 :: int) \<le> 127 \<and> (1 :: int) \<le> 1 \<and> ex_results 0 = - 10
   \<and> 0 < update_lock ex_data
   \<and> (lm83_remote2_temp, remote2_high, LM83_REG_W_REMOTE2_HIGH) \<in> set channels
   \<and> (\<exists>d1 s1. lm83_remote2_temp (ex_env\<lparr>wr := failing_wr\<rparr>) 2000 SENSORS_PROC_REAL_WRITE 1202
                (ex_data, ex_sys, 1, ex_results) = Some (d1, s1, 1, ex_results)
        \<and> remote2_high d1 = 246
        \<and> trace s1 = [Write_byte_data LM83_REG_W_REMOTE2_HIGH 246]
        \<and> (\<exists>d2 s2 res'. lm83_remote2_temp ex_env 2001 SENSORS_PROC_REAL_READ 1202
                (d1, s1, 1, ex_results) = Some (d2, s2, 2, res') \<and> res' 1 = - 10))"
proof -
  have h1: "(- 128 :: int) \<le> - 10" and h2: "(- 10 :: int) \<le> 127" and h3: "(1 :: int) \<le> 1"
    by simp_all
  have h4: "ex_results 0 = - 10" by (simp add: ex_results_def)
  have h5: "0 < update_lock ex_data" by (simp add: ex_data_def)
  have m: "(lm83_remote2_temp, remote2_high, LM83_REG_W_REMOTE2_HIGH) \<in> set channels"
    by (simp add: channels_def)
  have enc: "(word_of_int (TEMP_TO_REG (- 10)) :: u8) = 246"
    by (simp add: TEMP_TO_REG_def)
  from threshold_write_then_read [where v = "- 10" and n = 1 and res = ex_results
      and d = ex_data and e = "ex_env\<lparr>wr := failing_wr\<rparr>" and now = 2000 and ctl = 1202
      and s = ex_sys, OF h1 h2 h3 h4 h5] m
  have "\<exists>d1 s1. lm83_remote2_temp (ex_env\<lparr>wr := failing_wr\<rparr>) 2000 SENSORS_PROC_REAL_WRITE 1202
                (ex_data, ex_sys, 1, ex_results) = Some (d1, s1, 1, ex_results)
        \<and> remote2_high d1 = word_of_int (TEMP_TO_REG (- 10))
        \<and> trace s1 = trace ex_sys @ [Write_byte_data LM83_REG_W_REMOTE2_HIGH
                                        (word_of_int (TEMP_TO_REG (- 10)))]
        \<and> (\<forall>e2 now2 ctl2 n2 res2. \<exists>d2 s2 res'.
             lm83_remote2_temp e2 now2 SENSORS_PROC_REAL_READ ctl2 (d1, s1, n2, res2)
               = Some (d2, s2, 2, res') \<and> res' 1 = - 10)"
    by fastforce
  then have "\<exists>d1 s1. lm83_remote2_temp (ex_env\<lparr>wr := failing_wr\<rparr>) 2000 SENSORS_PROC_REAL_WRITE 1202
                (ex_data, ex_sys, 1, ex_results) = Some (d1, s1, 1, ex_results)
        \<and> remote2_high d1 = 246
        \<and> trace s1 = [Write_byte_data LM83_REG_W_REMOTE2_HIGH 246]
        \<and> (\<exists>d2 s2 res'. lm83_remote2_temp ex_env 2001 SENSORS_PROC_REAL_READ 1202
                (d1, s1, 1, ex_results) = Some (d2, s2, 2, res') \<and> res' 1 = - 10)"
    unfolding enc by (simp add: ex_sys_def) blast
  with h1 h2 h3 h4 h5 m show ?thesis by blast
qed

section \<open>Detection\<close>

subsection \<open>The paths through lm83_detect\<close>

lemma detection_failed_eq:
  "detection_failed e s = (\<not> masks_clear e, s\<lparr>trace := trace s @ detection_reads e\<rparr>)"
  by (simp add: detection_failed_def masks_clear_def detection_reads_def lm83_read_value_def
      emit_def)

lemma identification_eq:
  "identification e kind s =
     (if man_id_ok e then lm83 else kind,
      s\<lparr>trace := trace s @ [Read_byte_data LM83_REG_R_MAN_ID]\<rparr>)"
  by (simp add: identification_def man_id_ok_def lm83_read_value_def emit_def)

lemma lm83_init_client_eq:
  "lm83_init_client e s = s\<lparr>trace := trace s @ init_writes\<rparr>"
  by (simp add: lm83_init_client_def lm83_write_value_def emit_def init_writes_def
      TEMP_TO_REG_def LM83_INIT_HIGH_def)

lemma lm83_detect_no_functionality:
  "\<not> functionality e \<Longrightarrow>
   lm83_detect e address fl kind s = (0, s\<lparr>trace := trace s @ [Check_functionality]\<rparr>)"
  by (simp add: lm83_detect_def emit_def)

lemma lm83_detect_ENOMEM:
  "functionality e \<Longrightarrow> kmalloc e = None \<Longrightarrow>
   lm83_detect e address fl kind s =
     (- ENOMEM, s\<lparr>trace := trace s @ [Check_functionality, Kmalloc,
         Printk ''lm83.o: Out of memory in lm83_detect (new_client).'']\<rparr>)"
  by (simp add: lm83_detect_def emit_def printk_def)

lemma lm83_detect_not_present:
  "functionality e \<Longrightarrow> kmalloc e = Some raw \<Longrightarrow> kind < 0 \<Longrightarrow> \<not> masks_clear e \<Longrightarrow>
   lm83_detect e address fl kind s =
     (0, s\<lparr>trace := trace s @ [Check_functionality, Kmalloc] @ detection_reads e @ [Kfree],
           block := None\<rparr>)"
  by (simp add: lm83_detect_def detection_failed_eq ERROR1_def kfree_def emit_def upd_client_def)

lemma lm83_detect_unsupported:
  "functionality e \<Longrightarrow> kmalloc e = Some raw \<Longrightarrow> kind \<le> 0 \<Longrightarrow> kind < 0 \<longrightarrow> masks_clear e \<Longrightarrow>
   \<not> man_id_ok e \<Longrightarrow>
   lm83_detect e address fl kind s =
     (0, s\<lparr>trace := trace s @ [Check_functionality, Kmalloc] @ probe_reads e kind
                  @ [Printk ''lm83.o: Unsupported chip.'', Kfree],
           block := None\<rparr>)"
  by (simp add: lm83_detect_def detection_failed_eq identification_eq ERROR1_def kfree_def
      emit_def printk_def upd_client_def probe_reads_def)

lemma lm83_detect_unknown_kind:
  "functionality e \<Longrightarrow> kmalloc e = Some raw \<Longrightarrow> 0 < kind \<Longrightarrow> kind \<noteq> lm83 \<Longrightarrow>
   lm83_detect e address fl kind s =
     (0, s\<lparr>trace := trace s @ [Check_functionality, Kmalloc,
                  Printk ''lm83.o: Unknown kind %d.'', Kfree],
           block := None\<rparr>)"
  by (simp add: lm83_detect_def ERROR1_def kfree_def emit_def printk_def upd_client_def)

lemma lm83_detect_attach_failed:
  "functionality e \<Longrightarrow> kmalloc e = Some raw \<Longrightarrow> chip_accepted e kind \<Longrightarrow> attach_ret e \<noteq> 0 \<Longrightarrow>
   lm83_detect e address fl kind s =
     (attach_ret e,
      s\<lparr>trace := trace s @ [Check_functionality, Kmalloc] @ probe_reads e kind
                  @ [Attach_client, Kfree],
        block := None, lm83_id := lm83_id s + 1\<rparr>)"
  by (simp add: lm83_detect_def detection_failed_eq identification_eq ERROR1_def kfree_def
      emit_def upd_client_def upd_data_def probe_reads_def chip_accepted_def lm83_def
      i2c_attach_client_def split: if_splits)

lemma lm83_detect_register_failed:
  "functionality e \<Longrightarrow> kmalloc e = Some raw \<Longrightarrow> chip_accepted e kind \<Longrightarrow> attach_ret e = 0 \<Longrightarrow>
   register_ret e < 0 \<Longrightarrow>
   lm83_detect e address fl kind s =
     (register_ret e,
      s\<lparr>trace := trace s @ [Check_functionality, Kmalloc] @ probe_reads e kind
                  @ [Attach_client, Register_entry ''lm83'', Detach_client, Kfree],
        block := None, attached := (detach_ret e \<noteq> 0), lm83_id := lm83_id s + 1\<rparr>)"
  by (simp add: lm83_detect_def detection_failed_eq identification_eq ERROR1_def ERROR2_def
      kfree_def emit_def upd_client_def upd_data_def probe_reads_def chip_accepted_def lm83_def
      i2c_attach_client_def i2c_register_entry_def i2c_detach_client_def split: if_splits)

lemma lm83_detect_attached:
  "functionality e \<Longrightarrow> kmalloc e = Some raw \<Longrightarrow> chip_accepted e kind \<Longrightarrow> attach_ret e = 0 \<Longrightarrow>
   0 \<le> register_ret e \<Longrightarrow>
   lm83_detect e address fl kind s =
     (0,
      s\<lparr>trace := trace s @ [Check_functionality, Kmalloc] @ probe_reads e kind
                  @ [Attach_client, Register_entry ''lm83''] @ init_writes,
        block := Some (raw\<lparr>addr := address, flags := 0, name := ''LM83 chip'',
                   id_c := lm83_id s,
                   data := (data raw)\<lparr>valid := 0, update_lock := 1,
                                       sysctl_id := register_ret e\<rparr>\<rparr>),
        attached := True, entry := Some (register_ret e), lm83_id := lm83_id s + 1\<rparr>)"
  by (simp add: lm83_detect_def detection_failed_eq identification_eq lm83_init_client_eq
      emit_def upd_client_def upd_data_def probe_reads_def chip_accepted_def lm83_def
      i2c_attach_client_def i2c_register_entry_def split: if_splits)

lemma probe_reads_autodetect:
  "kind < 0 \<Longrightarrow> masks_clear e \<Longrightarrow>
   probe_reads e kind =
     [Read_byte_data LM83_REG_R_STATUS1, Read_byte_data LM83_REG_R_STATUS2,
      Read_byte_data LM83_REG_R_CONFIG, Read_byte_data LM83_REG_R_MAN_ID]"
  by (simp add: probe_reads_def detection_reads_def masks_clear_def)

lemma probe_reads_only_reads: "set (probe_reads e kind) \<subseteq> range Read_byte_data"
  by (auto simp: probe_reads_def detection_reads_def)

lemma lm83_detect_identifies:
  assumes "functionality e" "kmalloc e = Some raw" "kind < 0" "masks_clear e"
  shows "\<exists>rest. trace (snd (lm83_detect e address fl kind s)) =
           trace s @ [Check_functionality, Kmalloc, Read_byte_data LM83_REG_R_STATUS1,
             Read_byte_data LM83_REG_R_STATUS2, Read_byte_data LM83_REG_R_CONFIG,
             Read_byte_data LM83_REG_R_MAN_ID] @ rest"
proof (cases "man_id_ok e")
  case False
  with assms show ?thesis
    by (simp add: lm83_detect_unsupported probe_reads_autodetect)
next
  case True
  with assms have acc: "chip_accepted e kind" by (simp add: chip_accepted_def)
  show ?thesis
  proof (cases "attach_ret e = 0")
    case False
    with assms acc show ?thesis
      by (simp add: lm83_detect_attach_failed probe_reads_autodetect)
  next
    case att: True
    show ?thesis
    proof (cases "register_ret e < 0")
      case True
      with assms acc att show ?thesis
        by (simp add: lm83_detect_register_failed probe_reads_autodetect)
    next
      case False
      with assms acc att show ?thesis
        by (simp add: lm83_detect_attached probe_reads_autodetect)
    qed
  qed
qed

lemma lm83_detect_kept_block:
  assumes "block s = None" and "block (snd (lm83_detect e address fl kind s)) \<noteq> None"
  shows "functionality e \<and> (\<exists>raw. kmalloc e = Some raw) \<and> chip_accepted e kind
         \<and> attach_ret e = 0 \<and> 0 \<le> register_ret e"
proof -
  have f: "functionality e"
    using assms by (cases "functionality e") (simp_all add: lm83_detect_no_functionality)
  obtain raw where k: "kmalloc e = Some raw"
    using assms f by (cases "kmalloc e") (simp_all add: lm83_detect_ENOMEM)
  have acc: "chip_accepted e kind"
  proof (rule ccontr)
    assume "\<not> chip_accepted e kind"
    then consider "kind < 0" "\<not> masks_clear e"
      | "kind \<le> 0" "kind < 0 \<longrightarrow> masks_clear e" "\<not> man_id_ok e"
      | "0 < kind" "kind \<noteq> lm83"
      by (auto simp: chip_accepted_def split: if_splits)
    then show False
      using assms(2) f k
      by cases (simp_all add: lm83_detect_not_present lm83_detect_unsupported
          lm83_detect_unknown_kind)
  qed
  have a: "attach_ret e = 0"
    using assms(2) f k acc by (cases "attach_ret e = 0") (simp_all add: lm83_detect_attach_failed)
  have r: "0 \<le> register_ret e"
    using assms(2) f k acc a
    by (cases "register_ret e < 0") (simp_all add: lm83_detect_register_failed)
  from f k acc a r show ?thesis by blast
qed

lemma lm83_detect_wr_irrelevant:
  "lm83_detect (e\<lparr>wr := w\<rparr>) address fl kind s = lm83_detect e address fl kind s"
  by (simp add: lm83_detect_def detection_failed_def identification_def lm83_read_value_def
      lm83_write_value_def lm83_init_client_def i2c_attach_client_def i2c_register_entry_def
      i2c_detach_client_def ERROR1_def ERROR2_def Let_def split_def split: option.split)

lemma masks_of_failed_read:
  "(- 1 :: int) AND 0xA8 \<noteq> 0" "(- 1 :: int) AND 0x48 \<noteq> 0" "(- 1 :: int) AND 0x41 \<noteq> 0"
  "(word_of_int (- 1) :: u8) \<noteq> 0x01"
  by simp_all

lemma lm83_detach_client_eq:
  "lm83_detach_client e c s =
     (if detach_ret e \<noteq> 0 then
        (detach_ret e,
         s\<lparr>trace := trace s @ [Deregister_entry (sysctl_id (data c)), Detach_client,
               Printk ''lm83.o: Client deregistration failed, client not detached.''],
           entry := (if entry s = Some (sysctl_id (data c)) then None else entry s)\<rparr>)
      else
        (0,
         s\<lparr>trace := trace s @ [Deregister_entry (sysctl_id (data c)), Detach_client, Kfree],
           block := None, attached := False,
           entry := (if entry s = Some (sysctl_id (data c)) then None else entry s)\<rparr>))"
  by (simp add: lm83_detach_client_def i2c_deregister_entry_def i2c_detach_client_def emit_def
      printk_def kfree_def)

subsection \<open>Autodetection\<close>

text \<open>
  Claim C3. When no kind is forced (\<open>kind < 0\<close>) and the adapter check and the
  allocation have succeeded, at least one of the three masks (\<open>0xA8\<close> on status 1,
  \<open>0x48\<close> on status 2, \<open>0x41\<close> on the configuration register) is non-zero if and only if
  \<^verbatim>\<open>lm83_detect\<close> leaves through the detection failure: it returns \<open>0\<close> having read only
  status and configuration registers and freed the block, with no identification read, no
  message and no registration, so that no client exists afterwards.
\<close>

theorem detect_not_present_iff_masks:
  assumes "functionality e" and "kmalloc e = Some raw" and "kind < 0"
  shows "(rd e LM83_REG_R_STATUS1 AND 0xA8 \<noteq> 0
          \<or> rd e LM83_REG_R_STATUS2 AND 0x48 \<noteq> 0
          \<or> rd e LM83_REG_R_CONFIG AND 0x41 \<noteq> 0)
     \<longleftrightarrow> (\<exists>regs\<in>{[LM83_REG_R_STATUS1],
                    [LM83_REG_R_STATUS1, LM83_REG_R_STATUS2],
                    [LM83_REG_R_STATUS1, LM83_REG_R_STATUS2, LM83_REG_R_CONFIG]}.
            lm83_detect e address fl kind s =
              (0, s\<lparr>trace := trace s @ [Check_functionality, Kmalloc]
                           @ map Read_byte_data regs @ [Kfree],
                    block := None\<rparr>))"
proof (cases "masks_clear e")
  case False
  then have "lm83_detect e address fl kind s =
     (0, s\<lparr>trace := trace s @ [Check_functionality, Kmalloc] @ detection_reads e @ [Kfree],
           block := None\<rparr>)"
    using assms by (simp add: lm83_detect_not_present)
  moreover have "detection_reads e \<in> map Read_byte_data ` {[LM83_REG_R_STATUS1],
                    [LM83_REG_R_STATUS1, LM83_REG_R_STATUS2],
                    [LM83_REG_R_STATUS1, LM83_REG_R_STATUS2, LM83_REG_R_CONFIG]}"
    by (simp add: detection_reads_def)
  ultimately show ?thesis
    using False by (auto simp: masks_clear_def)
next
  case True
  from lm83_detect_identifies [OF assms True, of address fl s]
  obtain rest where tr: "trace (snd (lm83_detect e address fl kind s)) =
           trace s @ [Check_functionality, Kmalloc, Read_byte_data LM83_REG_R_STATUS1,
             Read_byte_data LM83_REG_R_STATUS2, Read_byte_data LM83_REG_R_CONFIG,
             Read_byte_data LM83_REG_R_MAN_ID] @ rest"
    by blast
  have "\<not> (\<exists>regs\<in>{[LM83_REG_R_STATUS1],
                    [LM83_REG_R_STATUS1, LM83_REG_R_STATUS2],
                    [LM83_REG_R_STATUS1, LM83_REG_R_STATUS2, LM83_REG_R_CONFIG]}.
            lm83_detect e address fl kind s =
              (0, s\<lparr>trace := trace s @ [Check_functionality, Kmalloc]
                           @ map Read_byte_data regs @ [Kfree],
                    block := None\<rparr>))"
  proof
    assume "\<exists>regs\<in>{[LM83_REG_R_STATUS1],
                    [LM83_REG_R_STATUS1, LM83_REG_R_STATUS2],
                    [LM83_REG_R_STATUS1, LM83_REG_R_STATUS2, LM83_REG_R_CONFIG]}.
            lm83_detect e address fl kind s =
              (0, s\<lparr>trace := trace s @ [Check_functionality, Kmalloc]
                           @ map Read_byte_data regs @ [Kfree],
                    block := None\<rparr>)"
    then obtain regs where "regs \<in> {[LM83_REG_R_STATUS1],
                    [LM83_REG_R_STATUS1, LM83_REG_R_STATUS2],
                    [LM83_REG_R_STATUS1, LM83_REG_R_STATUS2, LM83_REG_R_CONFIG]}"
      and "trace (snd (lm83_detect e address fl kind s)) =
             trace s @ [Check_functionality, Kmalloc] @ map Read_byte_data regs @ [Kfree]"
      by force
    with tr show False by auto
  qed
  with True show ?thesis by (simp add: masks_clear_def)
qed

theorem detect_not_present_iff_masks_witness:
  "functionality (ex_env\<lparr>rd := alarm_rd\<rparr>) \<and> kmalloc (ex_env\<lparr>rd := alarm_rd\<rparr>) = Some ex_raw
   \<and> (- 1 :: int) < 0
   \<and> rd (ex_env\<lparr>rd := alarm_rd\<rparr>) LM83_REG_R_STATUS1 AND 0xA8 \<noteq> 0
   \<and> lm83_detect (ex_env\<lparr>rd := alarm_rd\<rparr>) 0x4c 0 (- 1) ex_sys =
       (0, ex_sys\<lparr>trace := [Check_functionality, Kmalloc,
                      Read_byte_data LM83_REG_R_STATUS1, Kfree]\<rparr>)"
proof -
  have h1: "functionality (ex_env\<lparr>rd := alarm_rd\<rparr>)" by (simp add: ex_env_def)
  have h2: "kmalloc (ex_env\<lparr>rd := alarm_rd\<rparr>) = Some ex_raw" by (simp add: ex_env_def)
  have h3: "(- 1 :: int) < 0" by simp
  have m: "rd (ex_env\<lparr>rd := alarm_rd\<rparr>) LM83_REG_R_STATUS1 AND 0xA8 \<noteq> 0"
    by (simp add: ex_env_def alarm_rd_def)
  from detect_not_present_iff_masks [where address = "0x4c" and fl = 0 and s = ex_sys, OF h1 h2 h3] m
  obtain regs where "regs \<in> {[LM83_REG_R_STATUS1],
                    [LM83_REG_R_STATUS1, LM83_REG_R_STATUS2],
                    [LM83_REG_R_STATUS1, LM83_REG_R_STATUS2, LM83_REG_R_CONFIG]}"
    and eq: "lm83_detect (ex_env\<lparr>rd := alarm_rd\<rparr>) 0x4c 0 (- 1) ex_sys =
              (0, ex_sys\<lparr>trace := trace ex_sys @ [Check_functionality, Kmalloc]
                           @ map Read_byte_data regs @ [Kfree],
                    block := None\<rparr>)"
    by blast
  have "lm83_detect (ex_env\<lparr>rd := alarm_rd\<rparr>) 0x4c 0 (- 1) ex_sys =
       (0, ex_sys\<lparr>trace := [Check_functionality, Kmalloc,
                      Read_byte_data LM83_REG_R_STATUS1, Kfree]\<rparr>)"
    by (simp add: lm83_detect_def detection_failed_def lm83_read_value_def ERROR1_def kfree_def
        emit_def upd_client_def ex_defs LM83_REG_defs)
  with h1 h2 h3 m eq show ?thesis by blast
qed

subsection \<open>A failing transfer during detection\<close>

text \<open>
  Claim C4 as stated fails. With every read failing (\<open>-1\<close>), \<^verbatim>\<open>lm83_detect\<close> returns \<open>0\<close>
  through the detection failure, exactly as it does for a device whose status register
  has a masked bit set; with only the manufacturer-identifier read failing it leaves
  through the unsupported-chip exit, again returning \<open>0\<close>.
\<close>

theorem detect_bus_failure_counterexample:
  "rd (ex_env\<lparr>rd := dead_bus_rd\<rparr>) LM83_REG_R_STATUS1 = - 1
   \<and> lm83_detect (ex_env\<lparr>rd := dead_bus_rd\<rparr>) 0x4c 0 (- 1) ex_sys =
       (0, ex_sys\<lparr>trace := [Check_functionality, Kmalloc,
                      Read_byte_data LM83_REG_R_STATUS1, Kfree]\<rparr>)
   \<and> lm83_detect (ex_env\<lparr>rd := dead_bus_rd\<rparr>) 0x4c 0 (- 1) ex_sys =
       lm83_detect (ex_env\<lparr>rd := alarm_rd\<rparr>) 0x4c 0 (- 1) ex_sys
   \<and> rd (ex_env\<lparr>rd := man_id_fails_rd\<rparr>) LM83_REG_R_MAN_ID = - 1
   \<and> lm83_detect (ex_env\<lparr>rd := man_id_fails_rd\<rparr>) 0x4c 0 (- 1) ex_sys =
       (0, ex_sys\<lparr>trace := [Check_functionality, Kmalloc,
                      Read_byte_data LM83_REG_R_STATUS1, Read_byte_data LM83_REG_R_STATUS2,
                      Read_byte_data LM83_REG_R_CONFIG, Read_byte_data LM83_REG_R_MAN_ID,
                      Printk ''lm83.o: Unsupported chip.'', Kfree]\<rparr>)"
  by (simp add: lm83_detect_def detection_failed_def identification_def lm83_read_value_def
      ERROR1_def kfree_def emit_def printk_def upd_client_def ex_defs LM83_REG_defs)

text \<open>
  Claim C4, amended. \<^verbatim>\<open>lm83_detect\<close> uses the value a failed read returns as the register
  value. A status or configuration read that fails with \<open>-1\<close> makes its mask non-zero,
  and the function leaves through the detection failure; a manufacturer-identifier read
  that fails with \<open>-1\<close> is truncated to \<open>0xFF\<close>, which is not \<open>0x01\<close>, and the function
  leaves through the unsupported-chip exit. In both cases it returns \<open>0\<close>, frees the block
  and registers nothing.
\<close>

theorem detect_failed_read_paths:
  assumes "functionality e" and "kmalloc e = Some raw" and "kind \<le> 0"
  shows "(kind < 0 \<and> rd e LM83_REG_R_STATUS1 = - 1 \<longrightarrow>
            lm83_detect e address fl kind s =
              (0, s\<lparr>trace := trace s @ [Check_functionality, Kmalloc,
                      Read_byte_data LM83_REG_R_STATUS1, Kfree],
                    block := None\<rparr>))
       \<and> (kind < 0 \<and> rd e LM83_REG_R_STATUS1 AND 0xA8 = 0
            \<and> rd e LM83_REG_R_STATUS2 = - 1 \<longrightarrow>
            lm83_detect e address fl kind s =
              (0, s\<lparr>trace := trace s @ [Check_functionality, Kmalloc,
                      Read_byte_data LM83_REG_R_STATUS1, Read_byte_data LM83_REG_R_STATUS2,
                      Kfree],
                    block := None\<rparr>))
       \<and> (kind < 0 \<and> rd e LM83_REG_R_STATUS1 AND 0xA8 = 0
            \<and> rd e LM83_REG_R_STATUS2 AND 0x48 = 0
            \<and> rd e LM83_REG_R_CONFIG = - 1 \<longrightarrow>
            lm83_detect e address fl kind s =
              (0, s\<lparr>trace := trace s @ [Check_functionality, Kmalloc,
                      Read_byte_data LM83_REG_R_STATUS1, Read_byte_data LM83_REG_R_STATUS2,
                      Read_byte_data LM83_REG_R_CONFIG, Kfree],
                    block := None\<rparr>))
       \<and> ((kind < 0 \<longrightarrow> rd e LM83_REG_R_STATUS1 AND 0xA8 = 0
                          \<and> rd e LM83_REG_R_STATUS2 AND 0x48 = 0
                          \<and> rd e LM83_REG_R_CONFIG AND 0x41 = 0)
            \<and> rd e LM83_REG_R_MAN_ID = - 1 \<longrightarrow>
            lm83_detect e address fl kind s =
              (0, s\<lparr>trace := trace s @ [Check_functionality, Kmalloc]
                      @ (if kind < 0
                         then [Read_byte_data LM83_REG_R_STATUS1,
                               Read_byte_data LM83_REG_R_STATUS2,
                               Read_byte_data LM83_REG_R_CONFIG]
                         else [])
                      @ [Read_byte_data LM83_REG_R_MAN_ID,
                         Printk ''lm83.o: Unsupported chip.'', Kfree],
                    block := None\<rparr>))"
proof (intro conjI impI)
  assume "kind < 0 \<and> rd e LM83_REG_R_STATUS1 = - 1"
  then show "lm83_detect e address fl kind s =
              (0, s\<lparr>trace := trace s @ [Check_functionality, Kmalloc,
                      Read_byte_data LM83_REG_R_STATUS1, Kfree],
                    block := None\<rparr>)"
    using assms(1,2) masks_of_failed_read
    by (simp add: lm83_detect_not_present masks_clear_def detection_reads_def)
next
  assume "kind < 0 \<and> rd e LM83_REG_R_STATUS1 AND 0xA8 = 0 \<and> rd e LM83_REG_R_STATUS2 = - 1"
  then show "lm83_detect e address fl kind s =
              (0, s\<lparr>trace := trace s @ [Check_functionality, Kmalloc,
                      Read_byte_data LM83_REG_R_STATUS1, Read_byte_data LM83_REG_R_STATUS2,
                      Kfree],
                    block := None\<rparr>)"
    using assms(1,2) masks_of_failed_read
    by (simp add: lm83_detect_not_present masks_clear_def detection_reads_def)
next
  assume "kind < 0 \<and> rd e LM83_REG_R_STATUS1 AND 0xA8 = 0
            \<and> rd e LM83_REG_R_STATUS2 AND 0x48 = 0 \<and> rd e LM83_REG_R_CONFIG = - 1"
  then show "lm83_detect e address fl kind s =
              (0, s\<lparr>trace := trace s @ [Check_functionality, Kmalloc,
                      Read_byte_data LM83_REG_R_STATUS1, Read_byte_data LM83_REG_R_STATUS2,
                      Read_byte_data LM83_REG_R_CONFIG, Kfree],
                    block := None\<rparr>)"
    using assms(1,2) masks_of_failed_read
    by (simp add: lm83_detect_not_present masks_clear_def detection_reads_def)
next
  assume a: "(kind < 0 \<longrightarrow> rd e LM83_REG_R_STATUS1 AND 0xA8 = 0
                          \<and> rd e LM83_REG_R_STATUS2 AND 0x48 = 0
                          \<and> rd e LM83_REG_R_CONFIG AND 0x41 = 0)
            \<and> rd e LM83_REG_R_MAN_ID = - 1"
  then have "\<not> man_id_ok e" and "kind < 0 \<longrightarrow> masks_clear e"
    using masks_of_failed_read by (simp_all add: man_id_ok_def masks_clear_def)
  with assms have "lm83_detect e address fl kind s =
     (0, s\<lparr>trace := trace s @ [Check_functionality, Kmalloc] @ probe_reads e kind
                  @ [Printk ''lm83.o: Unsupported chip.'', Kfree],
           block := None\<rparr>)"
    by (simp add: lm83_detect_unsupported)
  then show "lm83_detect e address fl kind s =
              (0, s\<lparr>trace := trace s @ [Check_functionality, Kmalloc]
                      @ (if kind < 0
                         then [Read_byte_data LM83_REG_R_STATUS1,
                               Read_byte_data LM83_REG_R_STATUS2,
                               Read_byte_data LM83_REG_R_CONFIG]
                         else [])
                      @ [Read_byte_data LM83_REG_R_MAN_ID,
                         Printk ''lm83.o: Unsupported chip.'', Kfree],
                    block := None\<rparr>)"
    using a assms(3) by (simp add: probe_reads_def detection_reads_def)
qed

theorem detect_failed_read_paths_witness:
  "functionality (ex_env\<lparr>rd := man_id_fails_rd\<rparr>)
   \<and> kmalloc (ex_env\<lparr>rd := man_id_fails_rd\<rparr>) = Some ex_raw \<and> (0 :: int) \<le> 0
   \<and> rd (ex_env\<lparr>rd := man_id_fails_rd\<rparr>) LM83_REG_R_MAN_ID = - 1
   \<and> lm83_detect (ex_env\<lparr>rd := man_id_fails_rd\<rparr>) 0x4c 0 0 ex_sys =
       (0, ex_sys\<lparr>trace := [Check_functionality, Kmalloc, Read_byte_data LM83_REG_R_MAN_ID,
                      Printk ''lm83.o: Unsupported chip.'', Kfree]\<rparr>)
   \<and> functionality (ex_env\<lparr>rd := dead_bus_rd\<rparr>)
   \<and> kmalloc (ex_env\<lparr>rd := dead_bus_rd\<rparr>) = Some ex_raw \<and> (- 1 :: int) \<le> 0
   \<and> (- 1 :: int) < 0 \<and> rd (ex_env\<lparr>rd := dead_bus_rd\<rparr>) LM83_REG_R_STATUS1 = - 1
   \<and> lm83_detect (ex_env\<lparr>rd := dead_bus_rd\<rparr>) 0x4c 0 (- 1) ex_sys =
       (0, ex_sys\<lparr>trace := [Check_functionality, Kmalloc,
                      Read_byte_data LM83_REG_R_STATUS1, Kfree]\<rparr>)"
proof -
  have h1: "functionality (ex_env\<lparr>rd := man_id_fails_rd\<rparr>)" by (simp add: ex_env_def)
  have h2: "kmalloc (ex_env\<lparr>rd := man_id_fails_rd\<rparr>) = Some ex_raw" by (simp add: ex_env_def)
  have h3: "(0 :: int) \<le> 0" by simp
  have f: "rd (ex_env\<lparr>rd := man_id_fails_rd\<rparr>) LM83_REG_R_MAN_ID = - 1"
    by (simp add: ex_env_def man_id_fails_rd_def)
  from detect_failed_read_paths [where address = "0x4c" and fl = 0 and s = ex_sys, OF h1 h2 h3] f
  have "lm83_detect (ex_env\<lparr>rd := man_id_fails_rd\<rparr>) 0x4c 0 0 ex_sys =
       (0, ex_sys\<lparr>trace := [Check_functionality, Kmalloc, Read_byte_data LM83_REG_R_MAN_ID,
                      Printk ''lm83.o: Unsupported chip.'', Kfree]\<rparr>)"
    by (simp add: ex_sys_def)
  note a = this
  have g1: "functionality (ex_env\<lparr>rd := dead_bus_rd\<rparr>)" by (simp add: ex_env_def)
  have g2: "kmalloc (ex_env\<lparr>rd := dead_bus_rd\<rparr>) = Some ex_raw" by (simp add: ex_env_def)
  have g3: "(- 1 :: int) \<le> 0" and g4: "(- 1 :: int) < 0" by simp_all
  have g: "rd (ex_env\<lparr>rd := dead_bus_rd\<rparr>) LM83_REG_R_STATUS1 = - 1"
    by (simp add: dead_bus_rd_def)
  from detect_failed_read_paths [where address = "0x4c" and fl = 0 and s = ex_sys, OF g1 g2 g3]
    g4 g
  have b: "lm83_detect (ex_env\<lparr>rd := dead_bus_rd\<rparr>) 0x4c 0 (- 1) ex_sys =
       (0, ex_sys\<lparr>trace := [Check_functionality, Kmalloc,
                      Read_byte_data LM83_REG_R_STATUS1, Kfree]\<rparr>)"
    by (simp add: ex_sys_def)
  from h1 h2 h3 f a g1 g2 g3 g4 g b show ?thesis by blast
qed

section \<open>Attach and detach\<close>

subsection \<open>The default thresholds\<close>

text \<open>
  Claim C5 as stated fails. On a bus where every write fails, \<^verbatim>\<open>lm83_detect\<close> still
  returns \<open>0\<close> and keeps the client, its bus registration and its sysctl entry; and the
  cached thresholds of the new client are what the allocated memory held (here \<open>0\<close>),
  not \<open>127\<close>.
\<close>

theorem attach_threshold_defaults_counterexample:
  "wr (ex_env\<lparr>wr := failing_wr\<rparr>) LM83_REG_W_LOCAL_HIGH 127 = - 1
   \<and> lm83_detect (ex_env\<lparr>wr := failing_wr\<rparr>) 0x4c 0 (- 1) ex_sys =
       (0, \<lparr>trace = [Check_functionality, Kmalloc,
                      Read_byte_data LM83_REG_R_STATUS1, Read_byte_data LM83_REG_R_STATUS2,
                      Read_byte_data LM83_REG_R_CONFIG, Read_byte_data LM83_REG_R_MAN_ID,
                      Attach_client, Register_entry ''lm83'',
                      Write_byte_data LM83_REG_W_LOCAL_HIGH 127,
                      Write_byte_data LM83_REG_W_REMOTE1_HIGH 127,
                      Write_byte_data LM83_REG_W_REMOTE2_HIGH 127,
                      Write_byte_data LM83_REG_W_REMOTE3_HIGH 127],
             block = Some \<lparr>addr = 0x4c, flags = 0, name = ''LM83 chip'', id_c = 0,
               data = \<lparr>sysctl_id = 7, update_lock = 1, valid = 0, last_updated = 0,
                 local_temp = 0, local_high = 0, remote1_temp = 0, remote1_high = 0,
                 remote2_temp = 0, remote2_high = 0, remote3_temp = 0, remote3_high = 0\<rparr>\<rparr>,
             attached = True, entry = Some 7, lm83_id = 1\<rparr>)"
  by (simp add: lm83_detect_def detection_failed_def identification_def lm83_read_value_def
      lm83_write_value_def lm83_init_client_def i2c_attach_client_def i2c_register_entry_def
      emit_def upd_client_def upd_data_def ex_defs LM83_REG_defs lm83_def TEMP_TO_REG_def
      LM83_INIT_HIGH_def)

text \<open>
  Claim C5, amended. Whenever \<^verbatim>\<open>lm83_detect\<close> keeps the client, it returns \<open>0\<close>, the client
  is registered with the bus layer and the sysctl layer, and the last four transfers write
  the default \<open>127\<close> to the four threshold registers (\<open>0x0B\<close>, \<open>0x50\<close>, \<open>0x0D\<close>, \<open>0x52\<close>),
  after both registrations. The results of these writes are discarded: the outcome of
  \<^verbatim>\<open>lm83_detect\<close> is the same whatever the writes return.
\<close>

theorem attach_writes_threshold_defaults:
  assumes "block s = None" and "lm83_detect e address fl kind s = (ret, s')"
    and "block s' \<noteq> None"
  shows "ret = 0 \<and> attached s' \<and> entry s' = Some (register_ret e)
     \<and> (\<exists>pre. trace s' = trace s @ pre @
           [Attach_client, Register_entry ''lm83'',
            Write_byte_data LM83_REG_W_LOCAL_HIGH 127,
            Write_byte_data LM83_REG_W_REMOTE1_HIGH 127,
            Write_byte_data LM83_REG_W_REMOTE2_HIGH 127,
            Write_byte_data LM83_REG_W_REMOTE3_HIGH 127])
     \<and> (\<forall>w. lm83_detect (e\<lparr>wr := w\<rparr>) address fl kind s = (ret, s'))"
proof -
  from assms have "block (snd (lm83_detect e address fl kind s)) \<noteq> None" by simp
  with assms(1) obtain raw where h: "functionality e" "kmalloc e = Some raw"
      "chip_accepted e kind" "attach_ret e = 0" "0 \<le> register_ret e"
    using lm83_detect_kept_block by blast
  from lm83_detect_attached [OF h, of address fl s] assms(2)
  have "ret = 0"
    and s': "s' = s\<lparr>trace := trace s @ [Check_functionality, Kmalloc] @ probe_reads e kind
                  @ [Attach_client, Register_entry ''lm83''] @ init_writes,
        block := Some (raw\<lparr>addr := address, flags := 0, name := ''LM83 chip'',
                   id_c := lm83_id s,
                   data := (data raw)\<lparr>valid := 0, update_lock := 1,
                                       sysctl_id := register_ret e\<rparr>\<rparr>),
        attached := True, entry := Some (register_ret e), lm83_id := lm83_id s + 1\<rparr>"
    by simp_all
  have "trace s' = trace s @ ([Check_functionality, Kmalloc] @ probe_reads e kind) @
           [Attach_client, Register_entry ''lm83'',
            Write_byte_data LM83_REG_W_LOCAL_HIGH 127,
            Write_byte_data LM83_REG_W_REMOTE1_HIGH 127,
            Write_byte_data LM83_REG_W_REMOTE2_HIGH 127,
            Write_byte_data LM83_REG_W_REMOTE3_HIGH 127]"
    by (simp add: s' init_writes_def)
  then have "\<exists>pre. trace s' = trace s @ pre @
           [Attach_client, Register_entry ''lm83'',
            Write_byte_data LM83_REG_W_LOCAL_HIGH 127,
            Write_byte_data LM83_REG_W_REMOTE1_HIGH 127,
            Write_byte_data LM83_REG_W_REMOTE2_HIGH 127,
            Write_byte_data LM83_REG_W_REMOTE3_HIGH 127]"
    by blast
  moreover have "attached s'" "entry s' = Some (register_ret e)"
    by (simp_all add: s')
  moreover have "\<forall>w. lm83_detect (e\<lparr>wr := w\<rparr>) address fl kind s = (ret, s')"
    using assms(2) by (simp add: lm83_detect_wr_irrelevant)
  ultimately show ?thesis using \<open>ret = 0\<close> by blast
qed

theorem attach_writes_threshold_defaults_witness:
  "block ex_sys = None
   \<and> block (snd (lm83_detect ex_env 0x4c 0 (- 1) ex_sys)) \<noteq> None
   \<and> fst (lm83_detect ex_env 0x4c 0 (- 1) ex_sys) = 0
   \<and> attached (snd (lm83_detect ex_env 0x4c 0 (- 1) ex_sys))
   \<and> lm83_detect (ex_env\<lparr>wr := failing_wr\<rparr>) 0x4c 0 (- 1) ex_sys
       = lm83_detect ex_env 0x4c 0 (- 1) ex_sys"
proof -
  have h1: "block ex_sys = None" by (simp add: ex_sys_def)
  have h2: "lm83_detect ex_env 0x4c 0 (- 1) ex_sys =
    (fst (lm83_detect ex_env 0x4c 0 (- 1) ex_sys), snd (lm83_detect ex_env 0x4c 0 (- 1) ex_sys))"
    by simp
  have h3: "block (snd (lm83_detect ex_env 0x4c 0 (- 1) ex_sys)) \<noteq> None"
    by (simp add: lm83_detect_def detection_failed_def identification_def lm83_read_value_def
      lm83_write_value_def lm83_init_client_def i2c_attach_client_def i2c_register_entry_def
      emit_def upd_client_def upd_data_def ex_defs LM83_REG_defs lm83_def)
  from attach_writes_threshold_defaults [OF h1 h2 h3] h1 h3 show ?thesis
    by simp
qed

subsection \<open>Rollback when the sysctl registration fails\<close>

text \<open>
  Claim C6. When the chip is accepted, the bus-layer registration succeeds and the sysctl
  registration fails, \<^verbatim>\<open>lm83_detect\<close> calls \<^verbatim>\<open>i2c_detach_client\<close> and only then \<^verbatim>\<open>kfree\<close>, as its
  last two calls (the reverse of the order of \<^verbatim>\<open>kmalloc\<close> and \<^verbatim>\<open>i2c_attach_client\<close>), and
  returns the error of the registration. Afterwards the block is
  freed, no sysctl entry was added, and the client is out of the bus layer's list when the
  unregistration succeeded.
\<close>

theorem register_failure_rolls_back:
  assumes "functionality e" and "kmalloc e = Some raw" and "chip_accepted e kind"
    and "attach_ret e = 0" and "register_ret e < 0"
  shows "\<exists>s' pre. lm83_detect e address fl kind s = (register_ret e, s')
     \<and> trace s' = trace s @ pre @
         [Attach_client, Register_entry ''lm83'', Detach_client, Kfree]
     \<and> Kmalloc \<in> set pre
     \<and> Attach_client \<notin> set pre \<and> Detach_client \<notin> set pre \<and> Kfree \<notin> set pre
     \<and> block s' = None \<and> entry s' = entry s
     \<and> (detach_ret e = 0 \<longrightarrow> \<not> attached s')"
proof -
  let ?pre = "[Check_functionality, Kmalloc] @ probe_reads e kind"
  let ?s' = "s\<lparr>trace := trace s @ [Check_functionality, Kmalloc] @ probe_reads e kind
                  @ [Attach_client, Register_entry ''lm83'', Detach_client, Kfree],
        block := None, attached := (detach_ret e \<noteq> 0), lm83_id := lm83_id s + 1\<rparr>"
  have "lm83_detect e address fl kind s = (register_ret e, ?s')"
    using assms by (rule lm83_detect_register_failed)
  moreover have "trace ?s' = trace s @ ?pre @
         [Attach_client, Register_entry ''lm83'', Detach_client, Kfree]"
    by simp
  moreover have "Kmalloc \<in> set ?pre" by simp
  moreover have "Attach_client \<notin> set ?pre \<and> Detach_client \<notin> set ?pre \<and> Kfree \<notin> set ?pre"
    using probe_reads_only_reads [of e kind] by auto
  moreover have "block ?s' = None \<and> entry ?s' = entry s
     \<and> (detach_ret e = 0 \<longrightarrow> \<not> attached ?s')"
    by simp
  ultimately show ?thesis by blast
qed

theorem register_failure_rolls_back_witness:
  "functionality (ex_env\<lparr>register_ret := - 5\<rparr>)
   \<and> kmalloc (ex_env\<lparr>register_ret := - 5\<rparr>) = Some ex_raw
   \<and> chip_accepted (ex_env\<lparr>register_ret := - 5\<rparr>) (- 1)
   \<and> attach_ret (ex_env\<lparr>register_ret := - 5\<rparr>) = 0
   \<and> register_ret (ex_env\<lparr>register_ret := - 5\<rparr>) < 0
   \<and> fst (lm83_detect (ex_env\<lparr>register_ret := - 5\<rparr>) 0x4c 0 (- 1) ex_sys) = - 5
   \<and> block (snd (lm83_detect (ex_env\<lparr>register_ret := - 5\<rparr>) 0x4c 0 (- 1) ex_sys)) = None
   \<and> \<not> attached (snd (lm83_detect (ex_env\<lparr>register_ret := - 5\<rparr>) 0x4c 0 (- 1) ex_sys))"
proof -
  have h1: "functionality (ex_env\<lparr>register_ret := - 5\<rparr>)" by (simp add: ex_env_def)
  have h2: "kmalloc (ex_env\<lparr>register_ret := - 5\<rparr>) = Some ex_raw" by (simp add: ex_env_def)
  have h3: "chip_accepted (ex_env\<lparr>register_ret := - 5\<rparr>) (- 1)"
    by (simp add: chip_accepted_def masks_clear_def man_id_ok_def ex_env_def ex_rd_def
        LM83_REG_defs)
  have h4: "attach_ret (ex_env\<lparr>register_ret := - 5\<rparr>) = 0" by (simp add: ex_env_def)
  have h5: "register_ret (ex_env\<lparr>register_ret := - 5\<rparr>) < 0" by simp
  have h6: "detach_ret (ex_env\<lparr>register_ret := - 5\<rparr>) = 0" by (simp add: ex_env_def)
  from register_failure_rolls_back
    [where address = "0x4c" and fl = 0 and s = ex_sys, OF h1 h2 h3 h4 h5] h6
  have "fst (lm83_detect (ex_env\<lparr>register_ret := - 5\<rparr>) 0x4c 0 (- 1) ex_sys) = - 5
   \<and> block (snd (lm83_detect (ex_env\<lparr>register_ret := - 5\<rparr>) 0x4c 0 (- 1) ex_sys)) = None
   \<and> \<not> attached (snd (lm83_detect (ex_env\<lparr>register_ret := - 5\<rparr>) 0x4c 0 (- 1) ex_sys))"
    by auto
  with h1 h2 h3 h4 h5 show ?thesis by blast
qed

subsection \<open>Detach\<close>

text \<open>
  Claim C7. \<^verbatim>\<open>lm83_detach_client\<close> first removes the sysctl entry and then unregisters from
  the bus layer. If that unregistration fails, its error is returned, \<^verbatim>\<open>kfree\<close> is not
  called and the client block and its bus registration stay as they were; if it succeeds,
  \<open>0\<close> is returned and the block is freed, as the last call.
\<close>

theorem detach_order_and_failure:
  "\<exists>s' rest. lm83_detach_client e c s = (detach_ret e, s')
     \<and> trace s' = trace s @ [Deregister_entry (sysctl_id (data c)), Detach_client] @ rest
     \<and> (if detach_ret e \<noteq> 0
        then Kfree \<notin> set rest \<and> block s' = block s \<and> attached s' = attached s
        else rest = [Kfree] \<and> block s' = None \<and> \<not> attached s')"
proof (cases "detach_ret e = 0")
  case True
  let ?s' = "s\<lparr>trace := trace s @ [Deregister_entry (sysctl_id (data c)), Detach_client, Kfree],
           block := None, attached := False,
           entry := (if entry s = Some (sysctl_id (data c)) then None else entry s)\<rparr>"
  have "lm83_detach_client e c s = (detach_ret e, ?s')"
    using True by (simp add: lm83_detach_client_eq)
  moreover have "trace ?s' = trace s @ [Deregister_entry (sysctl_id (data c)), Detach_client] @ [Kfree]"
    by simp
  moreover have "block ?s' = None" and "\<not> attached ?s'"
    by simp_all
  ultimately show ?thesis
    using True by (intro exI [of _ ?s'] exI [of _ "[Kfree]"]) simp
next
  case False
  let ?msg = "Printk ''lm83.o: Client deregistration failed, client not detached.''"
  let ?s' = "s\<lparr>trace := trace s @ [Deregister_entry (sysctl_id (data c)), Detach_client, ?msg],
           entry := (if entry s = Some (sysctl_id (data c)) then None else entry s)\<rparr>"
  have "lm83_detach_client e c s = (detach_ret e, ?s')"
    using False by (simp add: lm83_detach_client_eq)
  moreover have "trace ?s' = trace s @ [Deregister_entry (sysctl_id (data c)), Detach_client] @ [?msg]"
    by simp
  moreover have "Kfree \<notin> set [?msg]" and "block ?s' = block s" and "attached ?s' = attached s"
    by simp_all
  ultimately show ?thesis
    using False by (intro exI [of _ ?s'] exI [of _ "[?msg]"]) simp
qed

theorem detach_order_and_failure_witness:
  "detach_ret (ex_env\<lparr>detach_ret := - 16\<rparr>) \<noteq> 0
   \<and> fst (lm83_detach_client (ex_env\<lparr>detach_ret := - 16\<rparr>) (ex_raw\<lparr>data := ex_data\<rparr>)
        (ex_sys\<lparr>block := Some (ex_raw\<lparr>data := ex_data\<rparr>), attached := True\<rparr>)) = - 16
   \<and> block (snd (lm83_detach_client (ex_env\<lparr>detach_ret := - 16\<rparr>) (ex_raw\<lparr>data := ex_data\<rparr>)
        (ex_sys\<lparr>block := Some (ex_raw\<lparr>data := ex_data\<rparr>), attached := True\<rparr>)))
       = Some (ex_raw\<lparr>data := ex_data\<rparr>)
   \<and> detach_ret ex_env = 0
   \<and> fst (lm83_detach_client ex_env (ex_raw\<lparr>data := ex_data\<rparr>)
        (ex_sys\<lparr>block := Some (ex_raw\<lparr>data := ex_data\<rparr>), attached := True\<rparr>)) = 0
   \<and> block (snd (lm83_detach_client ex_env (ex_raw\<lparr>data := ex_data\<rparr>)
        (ex_sys\<lparr>block := Some (ex_raw\<lparr>data := ex_data\<rparr>), attached := True\<rparr>))) = None"
proof -
  have h1: "detach_ret (ex_env\<lparr>detach_ret := - 16\<rparr>) \<noteq> 0" by simp
  have h2: "detach_ret ex_env = 0" by (simp add: ex_env_def)
  from detach_order_and_failure [of "ex_env\<lparr>detach_ret := - 16\<rparr>" "ex_raw\<lparr>data := ex_data\<rparr>"
      "ex_sys\<lparr>block := Some (ex_raw\<lparr>data := ex_data\<rparr>), attached := True\<rparr>"] h1
  have a: "fst (lm83_detach_client (ex_env\<lparr>detach_ret := - 16\<rparr>) (ex_raw\<lparr>data := ex_data\<rparr>)
        (ex_sys\<lparr>block := Some (ex_raw\<lparr>data := ex_data\<rparr>), attached := True\<rparr>)) = - 16
   \<and> block (snd (lm83_detach_client (ex_env\<lparr>detach_ret := - 16\<rparr>) (ex_raw\<lparr>data := ex_data\<rparr>)
        (ex_sys\<lparr>block := Some (ex_raw\<lparr>data := ex_data\<rparr>), attached := True\<rparr>)))
       = Some (ex_raw\<lparr>data := ex_data\<rparr>)"
    by auto
  from detach_order_and_failure [of ex_env "ex_raw\<lparr>data := ex_data\<rparr>"
      "ex_sys\<lparr>block := Some (ex_raw\<lparr>data := ex_data\<rparr>), attached := True\<rparr>"] h2
  have b: "fst (lm83_detach_client ex_env (ex_raw\<lparr>data := ex_data\<rparr>)
        (ex_sys\<lparr>block := Some (ex_raw\<lparr>data := ex_data\<rparr>), attached := True\<rparr>)) = 0
   \<and> block (snd (lm83_detach_client ex_env (ex_raw\<lparr>data := ex_data\<rparr>)
        (ex_sys\<lparr>block := Some (ex_raw\<lparr>data := ex_data\<rparr>), attached := True\<rparr>))) = None"
    by auto
  from h1 h2 a b show ?thesis by blast
qed

end
